theory Spec2Isabelle
  imports Complex_Main "HOL-Library.AList" "HOL-Library.Sublist"
begin

section \<open>The source language: numbers, strings, Map and Set\<close>

text \<open>
  The program is TypeScript. Its numbers are modelled as real numbers: sums, products and
  comparisons are exact, so rounding errors of IEEE doubles are not part of the model. The
  places where the source can divide by zero are written out case by case
  (\<open>jsnum\<close> below holds the non-finite results).

  A \<open>Map<K, V>\<close> iterates in insertion order, \<open>set\<close> on a present key keeps the position
  of the key and \<open>set\<close> on a new key appends: this is an association list with distinct
  keys, updated by \<open>AList.update\<close>. A \<open>Set<string>\<close> is a list without duplicates in
  insertion order.
\<close>

type_synonym ('k, 'v) jsMap = "('k \<times> 'v) list"
type_synonym jsSet = "string list"

definition jsMap_get :: "('k, 'v) jsMap \<Rightarrow> 'k \<Rightarrow> 'v option" where
  "jsMap_get m k = map_of m k"

definition jsMap_has :: "('k, 'v) jsMap \<Rightarrow> 'k \<Rightarrow> bool" where
  "jsMap_has m k = (map_of m k \<noteq> None)"

definition jsMap_set :: "'k \<Rightarrow> 'v \<Rightarrow> ('k, 'v) jsMap \<Rightarrow> ('k, 'v) jsMap" where
  "jsMap_set k v m = AList.update k v m"

definition jsMap_delete :: "'k \<Rightarrow> ('k, 'v) jsMap \<Rightarrow> ('k, 'v) jsMap" where
  "jsMap_delete k m = AList.delete k m"

definition jsMap_values :: "('k, 'v) jsMap \<Rightarrow> 'v list" where
  "jsMap_values m = map snd m"

text \<open>\<open>new Map(entries)\<close>: the entries are set one after the other, a later entry with the
  same key overwrites the value.\<close>

definition jsMap_of_entries :: "('k \<times> 'v) list \<Rightarrow> ('k, 'v) jsMap" where
  "jsMap_of_entries kvs = fold (\<lambda>(k, v) m. jsMap_set k v m) kvs []"

definition jsSet_add :: "string \<Rightarrow> jsSet \<Rightarrow> jsSet" where
  "jsSet_add x s = (if x \<in> set s then s else s @ [x])"

definition jsSet_has :: "jsSet \<Rightarrow> string \<Rightarrow> bool" where
  "jsSet_has s x = (x \<in> set s)"

definition jsSet_delete :: "string \<Rightarrow> jsSet \<Rightarrow> jsSet" where
  "jsSet_delete x s = removeAll x s"

text \<open>\<open>x || 0\<close> on the result of \<open>Map.get\<close>: a missing entry reads as 0.\<close>

definition or0 :: "real option \<Rightarrow> real" where
  "or0 v = (case v of None \<Rightarrow> 0 | Some x \<Rightarrow> x)"

text \<open>\<open>Math.round\<close> rounds to the nearest integer, a half towards plus infinity.\<close>

definition Math_round :: "real \<Rightarrow> real" where
  "Math_round x = of_int \<lfloor>x + 1 / 2\<rfloor>"

text \<open>A string is falsy exactly when it is empty; \<open>s.startsWith(p)\<close> is \<open>prefix p s\<close>.\<close>

definition truthy :: "string \<Rightarrow> bool" where
  "truthy s = (s \<noteq> [])"

definition startsWith :: "string \<Rightarrow> string \<Rightarrow> bool" where
  "startsWith s p = prefix p s"


section \<open>Data model\<close>

datatype ProficiencyLevel = Beginner | Intermediate | Expert

text \<open>\<open>skills\<close> is an object from skill names to levels; its keys are distinct.\<close>

record Employee =
  emp_id :: string
  emp_name :: string
  maxHours :: real
  skills :: "(string \<times> ProficiencyLevel) list"

text \<open>\<open>requiredSkills\<close> is optional. The start and end date of a project are not read by
  the functions modelled here.\<close>

record Project =
  proj_id :: string
  proj_name :: string
  requiredSkills :: "string list option"

text \<open>\<open>week\<close> is the week label, a string that may be empty; \<open>date\<close> is the optional
  calendar date, \<open>None\<close> when the field is missing.\<close>

record Assignment =
  asg_id :: string
  employeeId :: string
  projectId :: string
  hours :: real
  week :: string
  date :: "string option"

text \<open>A date range over an abstract type of dates; \<open>null\<close> ends are \<open>None\<close>.\<close>

record 'd DateRange =
  dr_start :: "'d option"
  dr_end :: "'d option"

record Metrics =
  overtimeHours :: real
  resourceUtilization :: real
  skillsMatching :: real


section \<open>Batch metrics (src/lib/metrics.ts)\<close>

fun PROFICIENCY_SCORES :: "ProficiencyLevel \<Rightarrow> real" where
  "PROFICIENCY_SCORES Beginner = 1"
| "PROFICIENCY_SCORES Intermediate = 2"
| "PROFICIENCY_SCORES Expert = 3"

text \<open>\<open>assignment.date || assignment.week\<close>: the date unless it is missing or empty.\<close>

definition date_or_week :: "Assignment \<Rightarrow> string" where
  "date_or_week a =
     (case date a of
        Some d \<Rightarrow> if truthy d then d else week a
      | None \<Rightarrow> week a)"

text \<open>The first loop of \<open>calculateResourceUtilization\<close> without a date range: the set of
  the period keys of all assignments.\<close>

definition timePeriodsSet :: "Assignment list \<Rightarrow> jsSet" where
  "timePeriodsSet assignments = fold (\<lambda>a s. jsSet_add (date_or_week a) s) assignments []"

text \<open>The second loop: hours summed per employee id.\<close>

definition employeeAssignedHours :: "Assignment list \<Rightarrow> (string, real) jsMap" where
  "employeeAssignedHours assignments =
     fold (\<lambda>a m. jsMap_set (employeeId a) (or0 (jsMap_get m (employeeId a)) + hours a) m)
       assignments []"

text \<open>\<open>differenceInWeeks\<close> of the date library is a parameter \<open>dw\<close>: \<open>dw e s\<close> is the
  number of full weeks from \<open>s\<close> to \<open>e\<close>. Both ends of the range are valid dates.\<close>

definition numPeriods :: "('d \<Rightarrow> 'd \<Rightarrow> int) \<Rightarrow> Assignment list \<Rightarrow> 'd DateRange option \<Rightarrow> real" where
  "numPeriods dw assignments dateRange =
     (case (case dateRange of None \<Rightarrow> None | Some r \<Rightarrow> dr_start r,
            case dateRange of None \<Rightarrow> None | Some r \<Rightarrow> dr_end r) of
        (Some s, Some e) \<Rightarrow> max 1 (of_int (dw e s) + 1)
      | _ \<Rightarrow> max 1 (of_nat (length (timePeriodsSet assignments))))"

text \<open>The last loop: the pair \<open>(totalMaxCapacity, totalAssignedHours)\<close> over the listed
  employees.\<close>

definition capacityAndHours :: "real \<Rightarrow> (string, real) jsMap \<Rightarrow> Employee list \<Rightarrow> real \<times> real" where
  "capacityAndHours n assigned employees =
     fold (\<lambda>employee (c, h).
             (c + maxHours employee * n, h + or0 (jsMap_get assigned (emp_id employee))))
       employees (0, 0)"

definition calculateResourceUtilization ::
  "('d \<Rightarrow> 'd \<Rightarrow> int) \<Rightarrow> Employee list \<Rightarrow> Assignment list \<Rightarrow> 'd DateRange option \<Rightarrow> real" where
  "calculateResourceUtilization dw employees assignments dateRange =
     (if employees = [] then 0
      else
        let n = numPeriods dw assignments dateRange;
            (totalMaxCapacity, totalAssignedHours) =
              capacityAndHours n (employeeAssignedHours assignments) employees
        in if totalMaxCapacity > 0
           then Math_round ((totalAssignedHours / totalMaxCapacity) * 100)
           else 0)"


text \<open>\<open>calculateSkillsMatch\<close>: one step of the loop over the assignments. The state is the
  running total and the set of the pair keys already counted. The pair key is the template
  string \<open>`${employeeId}-${projectId}`\<close>.\<close>

definition skillPoints :: "Employee \<Rightarrow> string list \<Rightarrow> real \<Rightarrow> real" where
  "skillPoints employee required score0 =
     fold (\<lambda>skill t. case map_of (skills employee) skill of
                        Some proficiency \<Rightarrow> t + PROFICIENCY_SCORES proficiency
                      | None \<Rightarrow> t)
       required score0"

definition calculateSkillsMatch_step ::
  "(string, Employee) jsMap \<Rightarrow> (string, Project) jsMap \<Rightarrow> Assignment \<Rightarrow> real \<times> jsSet \<Rightarrow> real \<times> jsSet" where
  "calculateSkillsMatch_step employeeMap projectMap a st =
     (let (totalScore, uniquePairs) = st;
          pairKey = employeeId a @ ''-'' @ projectId a
      in if jsSet_has uniquePairs pairKey then st
         else
           case (jsMap_get employeeMap (employeeId a), jsMap_get projectMap (projectId a)) of
             (Some employee, Some project) \<Rightarrow>
               (case requiredSkills project of
                  None \<Rightarrow> st
                | Some required \<Rightarrow>
                    if required = [] then st
                    else (skillPoints employee required totalScore, jsSet_add pairKey uniquePairs))
           | _ \<Rightarrow> st)"

definition calculateSkillsMatch ::
  "Assignment list \<Rightarrow> (string, Employee) jsMap \<Rightarrow> (string, Project) jsMap \<Rightarrow> real" where
  "calculateSkillsMatch assignments employeeMap projectMap =
     fst (fold (calculateSkillsMatch_step employeeMap projectMap) assignments (0, []))"

text \<open>The two-level map \<open>employeeId -> period -> hours\<close> of \<open>calculateMetrics\<close> and of
  \<open>calculateTotalOvertime\<close>: the period map of the employee is created when missing, then
  the hours of the assignment are added under its period key.\<close>

definition addPeriodHours ::
  "Assignment \<Rightarrow> (string, (string, real) jsMap) jsMap \<Rightarrow> (string, (string, real) jsMap) jsMap" where
  "addPeriodHours a m =
     (let period = date_or_week a;
          m1 = (if \<not> jsMap_has m (employeeId a) then jsMap_set (employeeId a) [] m else m)
      in case jsMap_get m1 (employeeId a) of
           None \<Rightarrow> m1
         | Some periodMap \<Rightarrow>
             jsMap_set (employeeId a)
               (jsMap_set period (or0 (jsMap_get periodMap period) + hours a) periodMap) m1)"

text \<open>The second loop of both functions: every listed employee, every period of the employee.\<close>

definition overtimeOfPeriods :: "real \<Rightarrow> (string, real) jsMap \<Rightarrow> real \<Rightarrow> real" where
  "overtimeOfPeriods maxH periodHours overtime0 =
     fold (\<lambda>(period, h) t. if h > maxH then t + (h - maxH) else t) periodHours overtime0"

definition sumOvertime :: "Employee list \<Rightarrow> (string, (string, real) jsMap) jsMap \<Rightarrow> real" where
  "sumOvertime employees employeeHoursByPeriod =
     fold (\<lambda>employee t.
             case jsMap_get employeeHoursByPeriod (emp_id employee) of
               None \<Rightarrow> t
             | Some periodHours \<Rightarrow> overtimeOfPeriods (maxHours employee) periodHours t)
       employees 0"

definition calculateMetrics ::
  "('d \<Rightarrow> 'd \<Rightarrow> int) \<Rightarrow> Employee list \<Rightarrow> Project list \<Rightarrow> Assignment list \<Rightarrow> 'd DateRange option \<Rightarrow> Metrics" where
  "calculateMetrics dw employees projects assignments dateRange =
     (let employeeMap = jsMap_of_entries (map (\<lambda>e. (emp_id e, e)) employees);
          projectMap = jsMap_of_entries (map (\<lambda>p. (proj_id p, p)) projects);
          employeeHoursByPeriod = fold addPeriodHours assignments [];
          overtime = sumOvertime employees employeeHoursByPeriod;
          utilization = calculateResourceUtilization dw employees assignments dateRange;
          skillsMatch = calculateSkillsMatch assignments employeeMap projectMap
      in \<lparr>overtimeHours = Math_round overtime,
          resourceUtilization = utilization,
          skillsMatching = Math_round skillsMatch\<rparr>)"

definition getEmployeeProjectSkillScore :: "Employee \<Rightarrow> Project \<Rightarrow> real" where
  "getEmployeeProjectSkillScore employee project =
     (case requiredSkills project of
        None \<Rightarrow> 0
      | Some required \<Rightarrow> skillPoints employee required 0)"

definition createSkillScoreMatrix ::
  "Employee list \<Rightarrow> Project list \<Rightarrow> (string, (string, real) jsMap) jsMap" where
  "createSkillScoreMatrix employees projects =
     fold (\<lambda>employee matrix.
             let projectScores =
                   fold (\<lambda>project scores.
                           let score = getEmployeeProjectSkillScore employee project
                           in if score > 0 then jsMap_set (proj_id project) score scores else scores)
                     projects []
             in if length projectScores > 0 then jsMap_set (emp_id employee) projectScores matrix
                else matrix)
       employees []"

section \<open>Incremental metrics cache (src/lib/metrics/incrementalMetrics.ts)\<close>

record MetricsCache =
  overtimeByEmployee :: "(string, (string, real) jsMap) jsMap"
  utilizationByEmployee :: "(string, real) jsMap"
  skillsMatchByProject :: "(string, real) jsMap"
  lastCalculated :: nat
  isDirty :: bool

record DirtyTracking =
  dirtyEmployees :: jsSet
  dirtyProjects :: jsSet
  dirtyWeeks :: jsSet

text \<open>The fields of the class \<open>IncrementalMetricsCalculator\<close>. The three entity maps are
  prefixed with \<open>c_\<close>.\<close>

record IncrementalMetricsCalculator =
  cache :: MetricsCache
  dirtyTracking :: DirtyTracking
  c_employees :: "(string, Employee) jsMap"
  c_projects :: "(string, Project) jsMap"
  c_assignments :: "(string, Assignment) jsMap"
  assignmentsByEmployee :: "(string, jsSet) jsMap"
  assignmentsByProject :: "(string, jsSet) jsMap"

text \<open>\<open>Partial<Assignment>\<close>: a field is \<open>Some\<close> when the key is present in the update.\<close>

record AssignmentUpdates =
  u_id :: "string option"
  u_employeeId :: "string option"
  u_projectId :: "string option"
  u_hours :: "real option"
  u_week :: "string option"
  u_date :: "string option"

text \<open>\<open>{ ...existing, ...updates }\<close>: every key present in the update overwrites.\<close>

definition applyUpdates :: "Assignment \<Rightarrow> AssignmentUpdates \<Rightarrow> Assignment" where
  "applyUpdates existing updates =
     \<lparr>asg_id = (case u_id updates of None \<Rightarrow> asg_id existing | Some v \<Rightarrow> v),
      employeeId = (case u_employeeId updates of None \<Rightarrow> employeeId existing | Some v \<Rightarrow> v),
      projectId = (case u_projectId updates of None \<Rightarrow> projectId existing | Some v \<Rightarrow> v),
      hours = (case u_hours updates of None \<Rightarrow> hours existing | Some v \<Rightarrow> v),
      week = (case u_week updates of None \<Rightarrow> week existing | Some v \<Rightarrow> v),
      date = (case u_date updates of None \<Rightarrow> date existing | Some v \<Rightarrow> Some v)\<rparr>"

text \<open>\<open>assignment.week || assignment.date || ''\<close>: here the week label comes first.\<close>

definition week_or_date :: "Assignment \<Rightarrow> string" where
  "week_or_date a =
     (if truthy (week a) then week a
      else case date a of
             Some d \<Rightarrow> if truthy d then d else []
           | None \<Rightarrow> [])"

text \<open>The reverse indices: \<open>if (!index.has(key)) index.set(key, new Set())\<close> followed by
  \<open>index.get(key)!.add(id)\<close>, and \<open>index.get(key)?.delete(id)\<close>.\<close>

definition indexAdd :: "string \<Rightarrow> string \<Rightarrow> (string, jsSet) jsMap \<Rightarrow> (string, jsSet) jsMap" where
  "indexAdd key aid idx =
     (let idx1 = (if \<not> jsMap_has idx key then jsMap_set key [] idx else idx)
      in case jsMap_get idx1 key of
           None \<Rightarrow> idx1
         | Some ids \<Rightarrow> jsMap_set key (jsSet_add aid ids) idx1)"

definition indexDelete :: "string \<Rightarrow> string \<Rightarrow> (string, jsSet) jsMap \<Rightarrow> (string, jsSet) jsMap" where
  "indexDelete key aid idx =
     (case jsMap_get idx key of
        None \<Rightarrow> idx
      | Some ids \<Rightarrow> jsMap_set key (jsSet_delete aid ids) idx)"

text \<open>\<open>this.assignmentsByEmployee.get(employeeId) || new Set()\<close>.\<close>

definition indexSlice :: "(string, jsSet) jsMap \<Rightarrow> string \<Rightarrow> jsSet" where
  "indexSlice idx key = (case jsMap_get idx key of None \<Rightarrow> [] | Some ids \<Rightarrow> ids)"

definition calculateEmployeeOvertime :: "string \<Rightarrow> IncrementalMetricsCalculator \<Rightarrow> IncrementalMetricsCalculator" where
  "calculateEmployeeOvertime eid this =
     (case jsMap_get (c_employees this) eid of
        None \<Rightarrow> this
      | Some employee \<Rightarrow>
          let assignmentIds = indexSlice (assignmentsByEmployee this) eid;
              weeklyHours =
                fold (\<lambda>assignmentId wh.
                        case jsMap_get (c_assignments this) assignmentId of
                          None \<Rightarrow> wh
                        | Some a \<Rightarrow>
                            jsMap_set (week_or_date a) (or0 (jsMap_get wh (week_or_date a)) + hours a) wh)
                  assignmentIds [];
              overtimeByWeek =
                fold (\<lambda>(wk, h) ow.
                        let overtime = max 0 (h - maxHours employee)
                        in if overtime > 0 then jsMap_set wk overtime ow else ow)
                  weeklyHours []
          in this\<lparr>cache := (cache this)
               \<lparr>overtimeByEmployee := jsMap_set eid overtimeByWeek (overtimeByEmployee (cache this))\<rparr>\<rparr>)"

definition calculateEmployeeUtilization :: "string \<Rightarrow> IncrementalMetricsCalculator \<Rightarrow> IncrementalMetricsCalculator" where
  "calculateEmployeeUtilization eid this =
     (case jsMap_get (c_employees this) eid of
        None \<Rightarrow> this
      | Some employee \<Rightarrow>
          let assignmentIds = indexSlice (assignmentsByEmployee this) eid;
              (totalHours, weeksWorked) =
                fold (\<lambda>assignmentId (t, ws).
                        case jsMap_get (c_assignments this) assignmentId of
                          None \<Rightarrow> (t, ws)
                        | Some a \<Rightarrow> (t + hours a, jsSet_add (week_or_date a) ws))
                  assignmentIds (0, []);
              maxCapacity = maxHours employee * max 1 (of_nat (length weeksWorked));
              utilization = (if maxCapacity > 0 then (totalHours / maxCapacity) * 100 else 0)
          in this\<lparr>cache := (cache this)
               \<lparr>utilizationByEmployee :=
                  jsMap_set eid (min 100 utilization) (utilizationByEmployee (cache this))\<rparr>\<rparr>)"

text \<open>The private method \<open>calculateSkillsMatch(employee, project)\<close> of the class, with the
  fractional weights.\<close>

definition calculateSkillsMatch_of :: "Employee \<Rightarrow> Project \<Rightarrow> real" where
  "calculateSkillsMatch_of employee project =
     (case requiredSkills project of
        None \<Rightarrow> 1
      | Some required \<Rightarrow>
          if required = [] then 1
          else if skills employee = [] then 0
          else
            let weightedScore =
                  fold (\<lambda>requiredSkill w.
                          case map_of (skills employee) requiredSkill of
                            None \<Rightarrow> w
                          | Some proficiency \<Rightarrow>
                              w + (if proficiency = Expert then 1
                                   else if proficiency = Intermediate then 7 / 10 else 4 / 10))
                    required 0
            in if length required > 0 then weightedScore / of_nat (length required) else 0)"

definition setSkillsMatch :: "string \<Rightarrow> real \<Rightarrow> IncrementalMetricsCalculator \<Rightarrow> IncrementalMetricsCalculator" where
  "setSkillsMatch pid v this =
     this\<lparr>cache := (cache this)
       \<lparr>skillsMatchByProject := jsMap_set pid v (skillsMatchByProject (cache this))\<rparr>\<rparr>"

definition calculateProjectSkillsMatch :: "string \<Rightarrow> IncrementalMetricsCalculator \<Rightarrow> IncrementalMetricsCalculator" where
  "calculateProjectSkillsMatch pid this =
     (case jsMap_get (c_projects this) pid of
        None \<Rightarrow> setSkillsMatch pid 100 this
      | Some project \<Rightarrow>
          (case requiredSkills project of
             None \<Rightarrow> setSkillsMatch pid 100 this
           | Some required \<Rightarrow>
               if required = [] then setSkillsMatch pid 100 this
               else
                 let assignmentIds = indexSlice (assignmentsByProject this) pid;
                     employeesOnProject =
                       fold (\<lambda>assignmentId es.
                               case jsMap_get (c_assignments this) assignmentId of
                                 None \<Rightarrow> es
                               | Some a \<Rightarrow> jsSet_add (employeeId a) es)
                         assignmentIds []
                 in if length employeesOnProject = 0 then setSkillsMatch pid 0 this
                    else
                      let totalMatch =
                            fold (\<lambda>eid t.
                                    case jsMap_get (c_employees this) eid of
                                      None \<Rightarrow> t
                                    | Some employee \<Rightarrow> t + calculateSkillsMatch_of employee project)
                              employeesOnProject 0;
                          averageMatch = (totalMatch / of_nat (length employeesOnProject)) * 100
                      in setSkillsMatch pid averageMatch this))"

definition clearDirtyTracking :: "IncrementalMetricsCalculator \<Rightarrow> IncrementalMetricsCalculator" where
  "clearDirtyTracking this =
     this\<lparr>dirtyTracking := \<lparr>dirtyEmployees = [], dirtyProjects = [], dirtyWeeks = []\<rparr>\<rparr>"

text \<open>\<open>Date.now()\<close> is the parameter \<open>now\<close>.\<close>

definition markClean :: "nat \<Rightarrow> IncrementalMetricsCalculator \<Rightarrow> IncrementalMetricsCalculator" where
  "markClean now this =
     clearDirtyTracking (this\<lparr>cache := (cache this)\<lparr>isDirty := False, lastCalculated := now\<rparr>\<rparr>)"

definition calculateAll :: "nat \<Rightarrow> IncrementalMetricsCalculator \<Rightarrow> IncrementalMetricsCalculator" where
  "calculateAll now this =
     (let s1 = fold (\<lambda>employee s. calculateEmployeeUtilization (emp_id employee)
                                     (calculateEmployeeOvertime (emp_id employee) s))
                 (jsMap_values (c_employees this)) this;
          s2 = fold (\<lambda>project s. calculateProjectSkillsMatch (proj_id project) s)
                 (jsMap_values (c_projects this)) s1
      in markClean now s2)"

definition recalculateDirty :: "nat \<Rightarrow> IncrementalMetricsCalculator \<Rightarrow> IncrementalMetricsCalculator" where
  "recalculateDirty now this =
     (let s1 = fold (\<lambda>eid s. calculateEmployeeUtilization eid (calculateEmployeeOvertime eid s))
                 (dirtyEmployees (dirtyTracking this)) this;
          s2 = fold (\<lambda>pid s. calculateProjectSkillsMatch pid s)
                 (dirtyProjects (dirtyTracking this)) s1
      in markClean now s2)"

text \<open>\<open>initialize\<close> replaces the cache, clears the five maps and fills them from the
  arguments; \<open>calculateAll\<close> then clears the dirty tracking, so that no field of the previous
  state survives. The model builds the state from the arguments.\<close>

definition initialize ::
  "nat \<Rightarrow> Employee list \<Rightarrow> Project list \<Rightarrow> Assignment list \<Rightarrow> IncrementalMetricsCalculator" where
  "initialize now employees projects assignments =
     calculateAll now
       \<lparr>cache = \<lparr>overtimeByEmployee = [], utilizationByEmployee = [], skillsMatchByProject = [],
                 lastCalculated = now, isDirty = False\<rparr>,
        dirtyTracking = \<lparr>dirtyEmployees = [], dirtyProjects = [], dirtyWeeks = []\<rparr>,
        c_employees = fold (\<lambda>e m. jsMap_set (emp_id e) e m) employees [],
        c_projects = fold (\<lambda>p m. jsMap_set (proj_id p) p m) projects [],
        c_assignments = fold (\<lambda>a m. jsMap_set (asg_id a) a m) assignments [],
        assignmentsByEmployee = fold (\<lambda>a idx. indexAdd (employeeId a) (asg_id a) idx) assignments [],
        assignmentsByProject = fold (\<lambda>a idx. indexAdd (projectId a) (asg_id a) idx) assignments []\<rparr>"

definition updateAssignment ::
  "string \<Rightarrow> AssignmentUpdates \<Rightarrow> IncrementalMetricsCalculator \<Rightarrow> IncrementalMetricsCalculator" where
  "updateAssignment assignmentId updates this =
     (case jsMap_get (c_assignments this) assignmentId of
        None \<Rightarrow> this
      | Some existing \<Rightarrow>
          let employeeChanged =
                (case u_employeeId updates of
                   None \<Rightarrow> None
                 | Some e \<Rightarrow> if truthy e \<and> e \<noteq> employeeId existing then Some e else None);
              projectChanged =
                (case u_projectId updates of
                   None \<Rightarrow> None
                 | Some p \<Rightarrow> if truthy p \<and> p \<noteq> projectId existing then Some p else None);
              dt = dirtyTracking this;
              de1 = jsSet_add (employeeId existing) (dirtyEmployees dt);
              de2 = (case employeeChanged of None \<Rightarrow> de1 | Some e \<Rightarrow> jsSet_add e de1);
              dp1 = jsSet_add (projectId existing) (dirtyProjects dt);
              dp2 = (case projectChanged of None \<Rightarrow> dp1 | Some p \<Rightarrow> jsSet_add p dp1);
              dw1 = jsSet_add (week_or_date existing) (dirtyWeeks dt);
              dw2 = (case u_week updates of
                       None \<Rightarrow> dw1
                     | Some w \<Rightarrow> if truthy w then jsSet_add w dw1 else dw1);
              updated = applyUpdates existing updates;
              byEmployee =
                (case employeeChanged of
                   None \<Rightarrow> assignmentsByEmployee this
                 | Some e \<Rightarrow>
                     indexAdd e assignmentId
                       (indexDelete (employeeId existing) assignmentId (assignmentsByEmployee this)));
              byProject =
                (case projectChanged of
                   None \<Rightarrow> assignmentsByProject this
                 | Some p \<Rightarrow>
                     indexAdd p assignmentId
                       (indexDelete (projectId existing) assignmentId (assignmentsByProject this)))
          in this\<lparr>dirtyTracking := \<lparr>dirtyEmployees = de2, dirtyProjects = dp2, dirtyWeeks = dw2\<rparr>,
                  c_assignments := jsMap_set assignmentId updated (c_assignments this),
                  assignmentsByEmployee := byEmployee,
                  assignmentsByProject := byProject,
                  cache := (cache this)\<lparr>isDirty := True\<rparr>\<rparr>)"

definition addAssignment :: "Assignment \<Rightarrow> IncrementalMetricsCalculator \<Rightarrow> IncrementalMetricsCalculator" where
  "addAssignment a this =
     (let dt = dirtyTracking this
      in this\<lparr>c_assignments := jsMap_set (asg_id a) a (c_assignments this),
              assignmentsByEmployee := indexAdd (employeeId a) (asg_id a) (assignmentsByEmployee this),
              assignmentsByProject := indexAdd (projectId a) (asg_id a) (assignmentsByProject this),
              dirtyTracking :=
                \<lparr>dirtyEmployees = jsSet_add (employeeId a) (dirtyEmployees dt),
                 dirtyProjects = jsSet_add (projectId a) (dirtyProjects dt),
                 dirtyWeeks = jsSet_add (week_or_date a) (dirtyWeeks dt)\<rparr>,
              cache := (cache this)\<lparr>isDirty := True\<rparr>\<rparr>)"

definition removeAssignment :: "string \<Rightarrow> IncrementalMetricsCalculator \<Rightarrow> IncrementalMetricsCalculator" where
  "removeAssignment assignmentId this =
     (case jsMap_get (c_assignments this) assignmentId of
        None \<Rightarrow> this
      | Some a \<Rightarrow>
          let dt = dirtyTracking this
          in this\<lparr>dirtyTracking :=
                    \<lparr>dirtyEmployees = jsSet_add (employeeId a) (dirtyEmployees dt),
                     dirtyProjects = jsSet_add (projectId a) (dirtyProjects dt),
                     dirtyWeeks = jsSet_add (week_or_date a) (dirtyWeeks dt)\<rparr>,
                  assignmentsByEmployee :=
                    indexDelete (employeeId a) assignmentId (assignmentsByEmployee this),
                  assignmentsByProject :=
                    indexDelete (projectId a) assignmentId (assignmentsByProject this),
                  c_assignments := jsMap_delete assignmentId (c_assignments this),
                  cache := (cache this)\<lparr>isDirty := True\<rparr>\<rparr>)"

definition aggregateMetrics :: "IncrementalMetricsCalculator \<Rightarrow> Metrics" where
  "aggregateMetrics this =
     (let totalOvertime =
            fold (\<lambda>weekMap t. fold (\<lambda>h t'. t' + h) (jsMap_values weekMap) t)
              (jsMap_values (overtimeByEmployee (cache this))) 0;
          (totalUtilization, employeeCount) =
            fold (\<lambda>utilization (t, n). (t + utilization, n + 1))
              (jsMap_values (utilizationByEmployee (cache this))) (0, 0 :: nat);
          (totalSkillsMatch, projectCount) =
            fold (\<lambda>m (t, n). (t + m, n + 1))
              (jsMap_values (skillsMatchByProject (cache this))) (0, 0 :: nat)
      in \<lparr>overtimeHours = Math_round totalOvertime,
          resourceUtilization =
            (if employeeCount > 0 then Math_round (totalUtilization / of_nat employeeCount) else 0),
          skillsMatching =
            (if projectCount > 0 then Math_round (totalSkillsMatch / of_nat projectCount) else 0)\<rparr>)"

text \<open>\<open>getMetrics\<close> returns the metrics and leaves the recalculated state behind.\<close>

definition getMetrics :: "nat \<Rightarrow> IncrementalMetricsCalculator \<Rightarrow> Metrics \<times> IncrementalMetricsCalculator" where
  "getMetrics now this =
     (let s = (if isDirty (cache this) then recalculateDirty now this else this)
      in (aggregateMetrics s, s))"

section \<open>Placeholder optimizer\<close>

text \<open>The placeholder test of \<open>optimizeSchedule\<close>, \<open>calculateTotalOvertime\<close> and
  \<open>applysuggestions\<close>: an empty employee reference, one of the two sentinels, or the prefix
  \<open>Placeholder\<close> followed by a space.\<close>

definition isPlaceholderId :: "string \<Rightarrow> bool" where
  "isPlaceholderId eid =
     (\<not> truthy eid \<or>
      (eid = ''Placeholder'' \<or>
       eid = ''placeholder'' \<or>
       startsWith eid ''Placeholder ''))"

definition isPlaceholder :: "Assignment \<Rightarrow> bool" where
  "isPlaceholder a = isPlaceholderId (employeeId a)"

definition calculateTotalOvertime :: "Employee list \<Rightarrow> Assignment list \<Rightarrow> real" where
  "calculateTotalOvertime employees assignments =
     sumOvertime employees
       (fold (\<lambda>a m. if truthy (employeeId a) \<and>
                        employeeId a \<noteq> ''Placeholder'' \<and>
                        employeeId a \<noteq> ''placeholder'' \<and>
                        \<not> startsWith (employeeId a) ''Placeholder ''
                     then addPeriodHours a m else m)
          assignments [])"

text \<open>Division by zero and its consequences: a JavaScript number that may be infinite or
  not a number. \<open>js_div\<close> is \<open>/\<close> on finite numbers (a positive or negative zero divisor
  is not distinguished), \<open>js_times x w\<close> is \<open>x * w\<close> and \<open>js_plus\<close> is \<open>+\<close>;
  comparisons with \<open>NaN\<close> are false.\<close>

datatype jsnum = Fin real | PosInf | NegInf | NaN

definition js_div :: "real \<Rightarrow> real \<Rightarrow> jsnum" where
  "js_div x y =
     (if y \<noteq> 0 then Fin (x / y)
      else if x > 0 then PosInf else if x < 0 then NegInf else NaN)"

fun js_times :: "jsnum \<Rightarrow> real \<Rightarrow> jsnum" where
  "js_times (Fin x) w = Fin (x * w)"
| "js_times PosInf w = (if w > 0 then PosInf else if w < 0 then NegInf else NaN)"
| "js_times NegInf w = (if w > 0 then NegInf else if w < 0 then PosInf else NaN)"
| "js_times NaN w = NaN"

fun js_plus :: "jsnum \<Rightarrow> jsnum \<Rightarrow> jsnum" where
  "js_plus (Fin x) (Fin y) = Fin (x + y)"
| "js_plus NaN y = NaN"
| "js_plus x NaN = NaN"
| "js_plus PosInf NegInf = NaN"
| "js_plus NegInf PosInf = NaN"
| "js_plus PosInf y = PosInf"
| "js_plus NegInf y = NegInf"
| "js_plus x PosInf = PosInf"
| "js_plus x NegInf = NegInf"

fun js_le :: "jsnum \<Rightarrow> real \<Rightarrow> bool" where
  "js_le (Fin x) r = (x \<le> r)"
| "js_le NegInf r = True"
| "js_le PosInf r = False"
| "js_le NaN r = False"

fun js_gt :: "jsnum \<Rightarrow> jsnum \<Rightarrow> bool" where
  "js_gt (Fin x) (Fin y) = (x > y)"
| "js_gt (Fin x) NegInf = True"
| "js_gt PosInf (Fin y) = True"
| "js_gt PosInf NegInf = True"
| "js_gt x y = False"

text \<open>\<open>Math.min(100, x)\<close>.\<close>

fun js_min100 :: "jsnum \<Rightarrow> jsnum" where
  "js_min100 (Fin x) = Fin (min 100 x)"
| "js_min100 PosInf = Fin 100"
| "js_min100 NegInf = NegInf"
| "js_min100 NaN = NaN"

record OptimizationWeights =
  w_overtime :: real
  w_utilization :: real
  w_skills :: real

record PlaceholderSuggestion =
  sug_projectId :: string
  sug_projectName :: string
  sug_week :: string
  originalHours :: real
  suggestedEmployeeId :: string
  suggestedEmployeeName :: string
  overtimeScore :: real
  utilizationScore :: jsnum
  skillsScore :: real

record OptimizationMetrics =
  currentOvertimeHours :: real
  currentUtilization :: real
  currentSkillsMatch :: real
  predictedOvertimeHours :: real
  predictedUtilization :: real
  predictedSkillsMatch :: real

record OptimizationResult =
  res_suggestions :: "PlaceholderSuggestion list"
  res_totalScore :: jsnum
  res_metrics :: OptimizationMetrics

record ScheduleData =
  d_employees :: "Employee list"
  d_projects :: "Project list"
  d_assignments :: "Assignment list"

datatype Algorithm = genetic | annealing | constraint

text \<open>The hours of an employee over the whole data set:
  \<open>data.assignments.filter(a => a.employeeId === employee.id).reduce(...)\<close>.\<close>

definition currentHoursOf :: "ScheduleData \<Rightarrow> Employee \<Rightarrow> real" where
  "currentHoursOf data employee =
     fold (\<lambda>a acc. acc + hours a)
       (filter (\<lambda>a. employeeId a = emp_id employee) (d_assignments data)) 0"

text \<open>\<open>skillScoreMatrix.get(employee.id)?.get(project.id) || 0\<close>.\<close>

definition matrixScore :: "(string, (string, real) jsMap) jsMap \<Rightarrow> Employee \<Rightarrow> Project \<Rightarrow> real" where
  "matrixScore skillScoreMatrix employee project =
     (case jsMap_get skillScoreMatrix (emp_id employee) of
        None \<Rightarrow> 0
      | Some employeeSkills \<Rightarrow> or0 (jsMap_get employeeSkills (proj_id project)))"

text \<open>The score of one candidate in \<open>findBestEmployee\<close>.\<close>

definition candidateScore ::
  "Assignment \<Rightarrow> Project \<Rightarrow> ScheduleData \<Rightarrow> OptimizationWeights \<Rightarrow>
   (string, (string, real) jsMap) jsMap \<Rightarrow> Employee \<Rightarrow> jsnum" where
  "candidateScore placeholder project data weights skillScoreMatrix employee =
     (let currentHours = currentHoursOf data employee;
          wouldCauseOvertime = (currentHours + hours placeholder) > maxHours employee;
          skillScore = matrixScore skillScoreMatrix employee project;
          score1 = (if wouldCauseOvertime
                    then Fin (0 - w_overtime weights * ((currentHours + hours placeholder) - maxHours employee))
                    else Fin 0);
          utilizationRatio = js_div (currentHours + hours placeholder) (maxHours employee);
          score2 = (if js_le utilizationRatio 1
                    then js_plus score1 (js_times utilizationRatio (w_utilization weights))
                    else score1)
      in js_plus score2 (Fin (w_skills weights * skillScore)))"

definition candidates :: "ScheduleData \<Rightarrow> jsSet \<Rightarrow> Employee list" where
  "candidates data excludedEmployees =
     filter (\<lambda>e. emp_id e \<noteq> ''placeholder'' \<and>
                 emp_id e \<noteq> ''Placeholder'' \<and>
                 \<not> startsWith (emp_id e) ''placeholder'' \<and>
                 \<not> jsSet_has excludedEmployees (emp_id e))
       (d_employees data)"

text \<open>The loop of \<open>findBestEmployee\<close>: the state is the best employee and the best score so
  far, initially \<open>null\<close> and minus infinity.\<close>

definition findBestEmployee ::
  "Assignment \<Rightarrow> Project \<Rightarrow> ScheduleData \<Rightarrow> OptimizationWeights \<Rightarrow>
   (string, (string, real) jsMap) jsMap \<Rightarrow> Algorithm \<Rightarrow> jsSet \<Rightarrow> Employee option" where
  "findBestEmployee placeholder project data weights skillScoreMatrix algorithm excludedEmployees =
     (if length (candidates data excludedEmployees) = 0 then None
      else
        fst (fold (\<lambda>employee (bestEmployee, bestScore).
                     let score = candidateScore placeholder project data weights skillScoreMatrix employee
                     in if js_gt score bestScore then (Some employee, score)
                        else (bestEmployee, bestScore))
               (candidates data excludedEmployees) (None, NegInf)))"

definition calculateAssignmentScores ::
  "Employee \<Rightarrow> Assignment \<Rightarrow> Project \<Rightarrow> ScheduleData \<Rightarrow>
   (string, (string, real) jsMap) jsMap \<Rightarrow> real \<times> jsnum \<times> real" where
  "calculateAssignmentScores employee assignment project data skillScoreMatrix =
     (let currentHours = currentHoursOf data employee;
          newTotalHours = currentHours + hours assignment;
          overtime = (if newTotalHours > maxHours employee
                      then - (newTotalHours - maxHours employee) else 0);
          utilization = js_min100 (js_times (js_div newTotalHours (maxHours employee)) 100);
          skill = matrixScore skillScoreMatrix employee project * 100
      in (overtime, utilization, skill))"

text \<open>\<open>`${placeholder.week || placeholder.date}`\<close> inside a template string: a missing date
  prints as \<open>undefined\<close>. The week label comes first.\<close>

definition week_or_date_text :: "Assignment \<Rightarrow> string" where
  "week_or_date_text a =
     (if truthy (week a) then week a
      else case date a of Some d \<Rightarrow> d | None \<Rightarrow> ''undefined'')"

definition placeholderKey :: "Assignment \<Rightarrow> string" where
  "placeholderKey a = projectId a @ ''-'' @ week_or_date_text a"

definition placeholderGroups :: "Assignment list \<Rightarrow> (string, Assignment list) jsMap" where
  "placeholderGroups placeholderAssignments =
     fold (\<lambda>placeholder groups.
             let key = placeholderKey placeholder;
                 g1 = (if \<not> jsMap_has groups key then jsMap_set key [] groups else groups)
             in case jsMap_get g1 key of
                  None \<Rightarrow> g1
                | Some members \<Rightarrow> jsMap_set key (members @ [placeholder]) g1)
       placeholderAssignments []"

text \<open>The inner loop of \<open>optimizeSchedule\<close> over the placeholders of one group, with the set
  \<open>assignedEmployeesForWeek\<close> of the employees already used in the group. It returns the
  suggestions pushed for the group, in order.\<close>

fun groupSuggestions ::
  "ScheduleData \<Rightarrow> OptimizationWeights \<Rightarrow> (string, (string, real) jsMap) jsMap \<Rightarrow> Algorithm \<Rightarrow>
   Project \<Rightarrow> jsSet \<Rightarrow> Assignment list \<Rightarrow> PlaceholderSuggestion list" where
  "groupSuggestions data weights skillScoreMatrix algorithm project assignedEmployeesForWeek [] = []"
| "groupSuggestions data weights skillScoreMatrix algorithm project assignedEmployeesForWeek
     (placeholder # placeholders) =
     (case findBestEmployee placeholder project data weights skillScoreMatrix algorithm
             assignedEmployeesForWeek of
        None \<Rightarrow>
          groupSuggestions data weights skillScoreMatrix algorithm project
            assignedEmployeesForWeek placeholders
      | Some bestEmployee \<Rightarrow>
          (let (overtime, utilization, skill) =
                 calculateAssignmentScores bestEmployee placeholder project data skillScoreMatrix
           in \<lparr>sug_projectId = proj_id project,
               sug_projectName = proj_name project,
               sug_week = week placeholder,
               originalHours = hours placeholder,
               suggestedEmployeeId = emp_id bestEmployee,
               suggestedEmployeeName = emp_name bestEmployee,
               overtimeScore = overtime,
               utilizationScore = utilization,
               skillsScore = skill\<rparr>)
          # groupSuggestions data weights skillScoreMatrix algorithm project
              (jsSet_add (emp_id bestEmployee) assignedEmployeesForWeek) placeholders)"

text \<open>One round of the outer loop: the project of the first placeholder of the group is
  looked up, a group without a project is skipped. A group is never empty.\<close>

definition suggestionsOfGroup ::
  "ScheduleData \<Rightarrow> OptimizationWeights \<Rightarrow> (string, (string, real) jsMap) jsMap \<Rightarrow> Algorithm \<Rightarrow>
   (string, Project) jsMap \<Rightarrow> Assignment list \<Rightarrow> PlaceholderSuggestion list" where
  "suggestionsOfGroup data weights skillScoreMatrix algorithm projectMap placeholders =
     (case placeholders of
        [] \<Rightarrow> []
      | firstPlaceholder # rest \<Rightarrow>
          (case jsMap_get projectMap (projectId firstPlaceholder) of
             None \<Rightarrow> []
           | Some project \<Rightarrow>
               groupSuggestions data weights skillScoreMatrix algorithm project [] placeholders))"

definition applysuggestions :: "Assignment list \<Rightarrow> PlaceholderSuggestion list \<Rightarrow> Assignment list" where
  "applysuggestions assignments suggestions =
     (let replacedPlaceholders =
            fold (\<lambda>suggestion r. jsSet_add (sug_projectId suggestion @ ''-'' @ sug_week suggestion) r)
              suggestions [];
          filtered =
            filter (\<lambda>a. if \<not> isPlaceholder a then True
                        else \<not> jsSet_has replacedPlaceholders (placeholderKey a))
              assignments
      in filtered @
         map (\<lambda>suggestion.
                \<lparr>asg_id = suggestedEmployeeId suggestion @ ''-'' @ sug_projectId suggestion @ ''-'' @
                           sug_week suggestion,
                 employeeId = suggestedEmployeeId suggestion,
                 projectId = sug_projectId suggestion,
                 hours = originalHours suggestion,
                 week = sug_week suggestion,
                 date = Some (sug_week suggestion)\<rparr>)
           suggestions)"

definition calculateTotalScore :: "PlaceholderSuggestion list \<Rightarrow> OptimizationWeights \<Rightarrow> jsnum" where
  "calculateTotalScore suggestions weights =
     fold (\<lambda>s acc.
             js_plus
               (js_plus
                  (js_plus acc (Fin (overtimeScore s * w_overtime weights)))
                  (js_times (utilizationScore s) (w_utilization weights)))
               (Fin (skillsScore s * w_skills weights)))
       suggestions (Fin 0)"

text \<open>The six metrics of the result, from an assignment list for the current and one for the
  predicted values.\<close>

definition optimizationMetrics ::
  "('d \<Rightarrow> 'd \<Rightarrow> int) \<Rightarrow> ScheduleData \<Rightarrow> Assignment list \<Rightarrow> 'd DateRange option \<Rightarrow> OptimizationMetrics" where
  "optimizationMetrics dw data predictedAssignments dateRange =
     \<lparr>currentOvertimeHours = calculateTotalOvertime (d_employees data) (d_assignments data),
      currentUtilization =
        calculateResourceUtilization dw (d_employees data) (d_assignments data) dateRange,
      currentSkillsMatch =
        calculateSkillsMatch (d_assignments data)
          (jsMap_of_entries (map (\<lambda>e. (emp_id e, e)) (d_employees data)))
          (jsMap_of_entries (map (\<lambda>p. (proj_id p, p)) (d_projects data))),
      predictedOvertimeHours = calculateTotalOvertime (d_employees data) predictedAssignments,
      predictedUtilization =
        calculateResourceUtilization dw (d_employees data) predictedAssignments dateRange,
      predictedSkillsMatch =
        calculateSkillsMatch predictedAssignments
          (jsMap_of_entries (map (\<lambda>e. (emp_id e, e)) (d_employees data)))
          (jsMap_of_entries (map (\<lambda>p. (proj_id p, p)) (d_projects data)))\<rparr>"

text \<open>\<open>optimizeSchedule\<close>. The progress callback reports percentages only and is left out.\<close>

definition optimizeSchedule ::
  "('d \<Rightarrow> 'd \<Rightarrow> int) \<Rightarrow> ScheduleData \<Rightarrow> Algorithm \<Rightarrow> OptimizationWeights \<Rightarrow> 'd DateRange option \<Rightarrow>
   OptimizationResult" where
  "optimizeSchedule dw data algorithm weights dateRange =
     (let skillScoreMatrix = createSkillScoreMatrix (d_employees data) (d_projects data);
          placeholderAssignments = filter isPlaceholder (d_assignments data)
      in if length placeholderAssignments = 0
         then \<lparr>res_suggestions = [],
               res_totalScore = Fin 0,
               res_metrics = optimizationMetrics dw data (d_assignments data) dateRange\<rparr>
         else
           let projectMap = jsMap_of_entries (map (\<lambda>p. (proj_id p, p)) (d_projects data));
               suggestions =
                 concat (map (suggestionsOfGroup data weights skillScoreMatrix algorithm projectMap)
                           (jsMap_values (placeholderGroups placeholderAssignments)));
               predictedAssignments = applysuggestions (d_assignments data) suggestions
           in \<lparr>res_suggestions = suggestions,
               res_totalScore = calculateTotalScore suggestions weights,
               res_metrics = optimizationMetrics dw data predictedAssignments dateRange\<rparr>)"

section \<open>The quantities the specification names\<close>

text \<open>The definitions of this section follow the words of the specification, not the
  code; the theorems below compare them with the functions of the program.

  Total assigned hours: for every listed employee, the hours of the assignments that carry
  the id of the employee.\<close>

definition spec_totalAssignedHours :: "Employee list \<Rightarrow> Assignment list \<Rightarrow> real" where
  "spec_totalAssignedHours employees assignments =
     (\<Sum>e\<leftarrow>employees. \<Sum>a\<leftarrow>filter (\<lambda>a. employeeId a = emp_id e) assignments. hours a)"

text \<open>The number of periods: the inclusive week span of a supplied date range, else the
  number of distinct period keys of the assignments; at least 1.\<close>

definition spec_numPeriods :: "('d \<Rightarrow> 'd \<Rightarrow> int) \<Rightarrow> Assignment list \<Rightarrow> 'd DateRange option \<Rightarrow> real" where
  "spec_numPeriods dw assignments dateRange =
     (case dateRange of
        None \<Rightarrow> max 1 (of_nat (card (date_or_week ` set assignments)))
      | Some r \<Rightarrow>
          (case (dr_start r, dr_end r) of
             (Some s, Some e) \<Rightarrow> max 1 (of_int (dw e s + 1))
           | _ \<Rightarrow> max 1 (of_nat (card (date_or_week ` set assignments)))))"

definition spec_totalCapacity ::
  "('d \<Rightarrow> 'd \<Rightarrow> int) \<Rightarrow> Employee list \<Rightarrow> Assignment list \<Rightarrow> 'd DateRange option \<Rightarrow> real" where
  "spec_totalCapacity dw employees assignments dateRange =
     (\<Sum>e\<leftarrow>employees. maxHours e) * spec_numPeriods dw assignments dateRange"

text \<open>Period-scoped overtime: the hours of an employee in one period, the periods the
  employee appears in, and the sum of the excess over the capacity.\<close>

definition spec_periodHours :: "string \<Rightarrow> Assignment list \<Rightarrow> string \<Rightarrow> real" where
  "spec_periodHours eid assignments k =
     (\<Sum>a\<leftarrow>filter (\<lambda>a. employeeId a = eid \<and> date_or_week a = k) assignments. hours a)"

definition spec_periodsOf :: "string \<Rightarrow> Assignment list \<Rightarrow> string list" where
  "spec_periodsOf eid assignments =
     remdups (map date_or_week (filter (\<lambda>a. employeeId a = eid) assignments))"

definition spec_overtimeOf :: "Employee \<Rightarrow> Assignment list \<Rightarrow> real" where
  "spec_overtimeOf e assignments =
     (\<Sum>k\<leftarrow>spec_periodsOf (emp_id e) assignments.
        max 0 (spec_periodHours (emp_id e) assignments k - maxHours e))"

definition spec_overtime :: "Employee list \<Rightarrow> Assignment list \<Rightarrow> real" where
  "spec_overtime employees assignments = (\<Sum>e\<leftarrow>employees. spec_overtimeOf e assignments)"

text \<open>Two abbreviations of the proofs about the two-level map of the overtime loops: the
  update of one period map by one assignment, and the period map stored for an employee.\<close>

definition periodStep :: "Assignment \<Rightarrow> (string, real) jsMap \<Rightarrow> (string, real) jsMap" where
  "periodStep a pm = AList.update (date_or_week a) (or0 (map_of pm (date_or_week a)) + hours a) pm"

definition periodMapOf :: "(string, (string, real) jsMap) jsMap \<Rightarrow> string \<Rightarrow> (string, real) jsMap" where
  "periodMapOf m e = (case map_of m e of None \<Rightarrow> [] | Some pm \<Rightarrow> pm)"

section \<open>Example data\<close>

text \<open>An instance of the date parameter: dates counted in days, and the number of full
  weeks between two of them.\<close>

definition ex_weeks :: "int \<Rightarrow> int \<Rightarrow> int" where
  "ex_weeks e s = (if s \<le> e then (e - s) div 7 else - ((s - e) div 7))"

definition ex_john :: Employee where
  "ex_john = \<lparr>emp_id = ''john'', emp_name = ''John'', maxHours = 40,
              skills = [(''Data'', Intermediate)]\<rparr>"

definition ex_jane :: Employee where
  "ex_jane = \<lparr>emp_id = ''jane'', emp_name = ''Jane'', maxHours = 30, skills = []\<rparr>"

text \<open>An employee record under the placeholder id, with an assignment of 50 hours.\<close>

definition ex_tbd :: Employee where
  "ex_tbd = \<lparr>emp_id = ''Placeholder'', emp_name = ''To be decided'', maxHours = 40, skills = []\<rparr>"

definition ex_project :: Project where
  "ex_project = \<lparr>proj_id = ''p1'', proj_name = ''Project A'', requiredSkills = Some [''Data'']\<rparr>"

text \<open>An assignment of the project \<open>p1\<close>.\<close>

definition ex_asg :: "string \<Rightarrow> string \<Rightarrow> real \<Rightarrow> string \<Rightarrow> string \<Rightarrow> Assignment" where
  "ex_asg i e h w d =
     \<lparr>asg_id = i, employeeId = e, projectId = ''p1'', hours = h, week = w, date = Some d\<rparr>"

definition ex_tbd_slot :: Assignment where
  "ex_tbd_slot = ex_asg ''1'' ''Placeholder'' 50 ''week1'' ''2024-01-01''"

text \<open>The utilization example of the specification: 10 hours in one week, 50 in the next.\<close>

definition ex_two_weeks :: "Assignment list" where
  "ex_two_weeks =
     [ex_asg ''1'' ''john'' 10 ''week1'' ''2024-01-01'',
      ex_asg ''2'' ''john'' 50 ''week2'' ''2024-01-08'']"

text \<open>Two employees over two weeks: 20 and 20 hours, 15 and 15 hours.\<close>

definition ex_four :: "Assignment list" where
  "ex_four =
     [ex_asg ''1'' ''john'' 20 ''week1'' ''2024-01-01'',
      ex_asg ''2'' ''john'' 20 ''week2'' ''2024-01-08'',
      ex_asg ''3'' ''jane'' 15 ''week1'' ''2024-01-01'',
      ex_asg ''4'' ''jane'' 15 ''week2'' ''2024-01-08'']"

text \<open>Under capacity in each week, over capacity in total, beside an open slot.\<close>

definition ex_steady :: "Assignment list" where
  "ex_steady =
     [ex_asg ''1'' ''john'' 30 ''week1'' ''2024-01-01'',
      ex_asg ''2'' ''john'' 30 ''week2'' ''2024-01-08'',
      ex_asg ''3'' ''Placeholder'' 50 ''week1'' ''2024-01-01'']"

text \<open>John's first assignment alone.\<close>

definition ex_first :: Assignment where
  "ex_first = ex_asg ''1'' ''john'' 10 ''week1'' ''2024-01-01''"

text \<open>Thirty hours twice on the same date, under two week labels.\<close>

definition ex_relabelled_work :: "Assignment list" where
  "ex_relabelled_work =
     [ex_asg ''1'' ''john'' 30 ''JAN 1'' ''2024-01-01'',
      ex_asg ''2'' ''john'' 30 ''2024-W01'' ''2024-01-01'']"

text \<open>An open slot of 20 hours in a third week.\<close>

definition ex_slot :: Assignment where
  "ex_slot = ex_asg ''9'' ''Placeholder 1'' 20 ''week3'' ''2024-01-15''"

text \<open>An assignment of John to a project that is not in the project list.\<close>

definition ex_ghost :: Assignment where
  "ex_ghost = \<lparr>asg_id = ''g1'', employeeId = ''john'', projectId = ''ghost'', hours = 10,
               week = ''week2'', date = Some ''2024-01-08''\<rparr>"

text \<open>An assignment to the listed project of an employee who is not in the employee list,
  in a third week.\<close>

definition ex_stray :: Assignment where
  "ex_stray = ex_asg ''s1'' ''nobody'' 20 ''week3'' ''2024-01-15''"

definition ex_weights :: OptimizationWeights where
  "ex_weights = \<lparr>w_overtime = 1, w_utilization = 1, w_skills = 1\<rparr>"

text \<open>Two open slots of the same project and the same date under two week labels.\<close>

definition ex_relabelled :: ScheduleData where
  "ex_relabelled =
     \<lparr>d_employees = [ex_john, ex_jane], d_projects = [ex_project],
      d_assignments =
        [ex_asg ''1'' ''Placeholder 1'' 20 ''JAN 1'' ''2024-01-01'',
         ex_asg ''2'' ''Placeholder 2'' 20 ''2024-W01'' ''2024-01-01'']\<rparr>"

text \<open>The same two slots under one week label.\<close>

definition ex_two_slots :: ScheduleData where
  "ex_two_slots =
     \<lparr>d_employees = [ex_john, ex_jane], d_projects = [ex_project],
      d_assignments =
        [ex_asg ''1'' ''Placeholder 1'' 20 ''2024-W01'' ''2024-01-01'',
         ex_asg ''2'' ''Placeholder 2'' 20 ''2024-W01'' ''2024-01-01'']\<rparr>"

text \<open>An open slot that has a date and no week label.\<close>

definition ex_date_only :: ScheduleData where
  "ex_date_only =
     \<lparr>d_employees = [ex_john], d_projects = [ex_project],
      d_assignments = [ex_asg ''1'' ''Placeholder'' 20 [] ''2024-01-01'']\<rparr>"

text \<open>An open slot of a project that is not in the project list.\<close>

definition ex_unknown_project :: ScheduleData where
  "ex_unknown_project =
     \<lparr>d_employees = [ex_john, ex_jane], d_projects = [ex_project],
      d_assignments =
        [\<lparr>asg_id = ''1'', employeeId = ''Placeholder'', projectId = ''p9'', hours = 20,
          week = ''2024-W01'', date = Some ''2024-01-01''\<rparr>]\<rparr>"

text \<open>A data set without open slots.\<close>

definition ex_staffed :: ScheduleData where
  "ex_staffed =
     \<lparr>d_employees = [ex_john, ex_jane], d_projects = [ex_project], d_assignments = ex_four\<rparr>"

section \<open>Unfolding the model on concrete data\<close>

lemmas container_defs =
  jsMap_get_def jsMap_has_def jsMap_set_def jsMap_delete_def jsMap_values_def
  jsMap_of_entries_def jsSet_add_def jsSet_has_def jsSet_delete_def or0_def Math_round_def
  truthy_def startsWith_def

lemmas batch_defs =
  date_or_week_def timePeriodsSet_def employeeAssignedHours_def numPeriods_def
  capacityAndHours_def calculateResourceUtilization_def skillPoints_def
  calculateSkillsMatch_step_def calculateSkillsMatch_def addPeriodHours_def
  overtimeOfPeriods_def sumOvertime_def calculateMetrics_def getEmployeeProjectSkillScore_def
  createSkillScoreMatrix_def

lemmas incremental_defs =
  applyUpdates_def week_or_date_def indexAdd_def indexDelete_def indexSlice_def
  calculateEmployeeOvertime_def calculateEmployeeUtilization_def calculateSkillsMatch_of_def
  setSkillsMatch_def calculateProjectSkillsMatch_def clearDirtyTracking_def markClean_def
  calculateAll_def recalculateDirty_def initialize_def updateAssignment_def addAssignment_def
  removeAssignment_def aggregateMetrics_def getMetrics_def

lemmas optimizer_defs =
  isPlaceholderId_def isPlaceholder_def calculateTotalOvertime_def js_div_def
  currentHoursOf_def matrixScore_def candidateScore_def candidates_def findBestEmployee_def
  calculateAssignmentScores_def week_or_date_text_def placeholderKey_def placeholderGroups_def
  suggestionsOfGroup_def applysuggestions_def calculateTotalScore_def optimizationMetrics_def
  optimizeSchedule_def


lemmas example_defs =
  ex_weeks_def ex_john_def ex_jane_def ex_tbd_def ex_tbd_slot_def ex_project_def ex_asg_def ex_two_weeks_def ex_four_def
  ex_steady_def ex_first_def ex_relabelled_work_def ex_slot_def ex_ghost_def ex_stray_def ex_weights_def ex_relabelled_def ex_two_slots_def
  ex_date_only_def ex_unknown_project_def ex_staffed_def


section \<open>Sets and maps of the source language\<close>

lemma jsSet_add_set: "set (jsSet_add x s) = insert x (set s)"
  by (auto simp: jsSet_add_def)

lemma jsSet_fold_distinct:
  "distinct s \<Longrightarrow> distinct (fold (\<lambda>a s. jsSet_add (f a) s) xs s)"
  by (induction xs arbitrary: s) (auto simp: jsSet_add_def)

lemma jsSet_fold_set:
  "set (fold (\<lambda>a s. jsSet_add (f a) s) xs s) = set s \<union> f ` set xs"
  by (induction xs arbitrary: s) (auto simp: jsSet_add_def)

lemma set_AList_update_subset:
  "set (AList.update k v al) \<subseteq> insert (k, v) (set al)"
  by (induction al) auto

lemma jsMap_of_entries_get_None:
  "jsMap_get (jsMap_of_entries (map (\<lambda>p. (f p, p)) ps)) k = None \<longleftrightarrow> k \<notin> f ` set ps"
proof -
  have "map_of (fold (\<lambda>(k, v) m. jsMap_set k v m) kvs m) k = None
          \<longleftrightarrow> map_of m k = None \<and> k \<notin> fst ` set kvs"
    for kvs m
    by (induction kvs arbitrary: m) (auto simp: jsMap_set_def update_conv' split: if_splits)
  from this[of "map (\<lambda>p. (f p, p)) ps" "[]"] show ?thesis
    by (auto simp: jsMap_of_entries_def jsMap_get_def image_image)
qed

lemma fold_if_filter:
  "fold (\<lambda>a m. if c a then f a m else m) xs m = fold f (filter c xs) m"
  by (induction xs arbitrary: m) auto

lemma fold_pair_sums:
  "fold (\<lambda>x (c, h). (c + f x, h + g x)) xs (c0, h0)
     = (c0 + (\<Sum>x\<leftarrow>xs. f x), h0 + (\<Sum>x\<leftarrow>xs. g x :: real))"
  for f :: "'a \<Rightarrow> real"
  by (induction xs arbitrary: c0 h0) (auto simp: algebra_simps)

lemma Math_round_mono: "x \<le> y \<Longrightarrow> Math_round x \<le> Math_round y"
  by (simp add: Math_round_def floor_mono)


section \<open>Resource utilization\<close>

lemma timePeriodsSet_length:
  "length (timePeriodsSet assignments) = card (date_or_week ` set assignments)"
proof -
  have "distinct (timePeriodsSet assignments)"
    unfolding timePeriodsSet_def by (rule jsSet_fold_distinct) simp
  then have "length (timePeriodsSet assignments) = card (set (timePeriodsSet assignments))"
    by (simp add: distinct_card)
  then show ?thesis
    by (simp add: timePeriodsSet_def jsSet_fold_set)
qed

lemma numPeriods_spec:
  "numPeriods dw assignments dateRange = spec_numPeriods dw assignments dateRange"
  by (auto simp: numPeriods_def spec_numPeriods_def timePeriodsSet_length split: option.splits)

lemma employeeAssignedHours_fold:
  "or0 (jsMap_get
          (fold (\<lambda>a m. jsMap_set (employeeId a) (or0 (jsMap_get m (employeeId a)) + hours a) m)
             xs m) k)
   = or0 (jsMap_get m k) + (\<Sum>a\<leftarrow>filter (\<lambda>a. employeeId a = k) xs. hours a)"
  by (induction xs arbitrary: m) (auto simp: jsMap_get_def jsMap_set_def update_conv' or0_def)

lemma employeeAssignedHours_get:
  "or0 (jsMap_get (employeeAssignedHours assignments) k)
     = (\<Sum>a\<leftarrow>filter (\<lambda>a. employeeId a = k) assignments. hours a)"
  unfolding employeeAssignedHours_def employeeAssignedHours_fold
  by (simp add: jsMap_get_def or0_def)

lemma capacityAndHours_eq:
  "capacityAndHours n (employeeAssignedHours assignments) employees =
     ((\<Sum>e\<leftarrow>employees. maxHours e) * n, spec_totalAssignedHours employees assignments)"
  by (simp add: capacityAndHours_def fold_pair_sums employeeAssignedHours_get
        spec_totalAssignedHours_def sum_list_mult_const)

lemma calculateResourceUtilization_eq:
  "calculateResourceUtilization dw employees assignments dateRange =
     (if employees = [] then 0
      else if spec_totalCapacity dw employees assignments dateRange > 0
      then Math_round (spec_totalAssignedHours employees assignments
                         / spec_totalCapacity dw employees assignments dateRange * 100)
      else 0)"
  by (simp add: calculateResourceUtilization_def capacityAndHours_eq numPeriods_spec
        spec_totalCapacity_def Let_def)

lemma utilization_example:
  "calculateResourceUtilization dw [ex_john] ex_two_weeks None = 75"
  by (simp add: container_defs batch_defs example_defs)








section \<open>Batch overtime\<close>

lemma addPeriodHours_get:
  "map_of (addPeriodHours a m) e =
     (if e = employeeId a then Some (periodStep a (periodMapOf m e)) else map_of m e)"
  by (auto simp: addPeriodHours_def jsMap_has_def jsMap_get_def jsMap_set_def update_conv'
        periodStep_def periodMapOf_def Let_def split: option.splits)

lemma periodMapOf_addPeriodHours:
  "periodMapOf (addPeriodHours a m) e =
     (if e = employeeId a then periodStep a (periodMapOf m e) else periodMapOf m e)"
  by (simp add: periodMapOf_def addPeriodHours_get)

lemma fold_addPeriodHours_periodMapOf:
  "periodMapOf (fold addPeriodHours xs m) e =
     fold periodStep (filter (\<lambda>a. employeeId a = e) xs) (periodMapOf m e)"
  by (induction xs arbitrary: m) (auto simp: periodMapOf_addPeriodHours)

lemma fold_addPeriodHours_None:
  "map_of (fold addPeriodHours xs m) e = None
     \<longleftrightarrow> map_of m e = None \<and> filter (\<lambda>a. employeeId a = e) xs = []"
  by (induction xs arbitrary: m) (auto simp: addPeriodHours_get)

lemma fold_periodStep_distinct:
  "distinct (map fst pm) \<Longrightarrow> distinct (map fst (fold periodStep xs pm))"
  by (induction xs arbitrary: pm) (auto simp: periodStep_def distinct_update)

lemma fold_periodStep_keys:
  "set (map fst (fold periodStep xs pm)) = set (map fst pm) \<union> date_or_week ` set xs"
  by (induction xs arbitrary: pm) (auto simp: periodStep_def dom_update)

lemma fold_periodStep_value:
  "or0 (map_of (fold periodStep xs pm) k) =
     or0 (map_of pm k) + (\<Sum>a\<leftarrow>filter (\<lambda>a. date_or_week a = k) xs. hours a)"
  by (induction xs arbitrary: pm) (auto simp: periodStep_def update_conv' or0_def)

lemma overtimeOfPeriods_sum:
  "overtimeOfPeriods maxH pm t = t + (\<Sum>(k, h)\<leftarrow>pm. max 0 (h - maxH))"
  unfolding overtimeOfPeriods_def
  by (induction pm arbitrary: t) (auto simp: max_def)

lemma sum_list_distinct_keys:
  "distinct (map fst pm) \<Longrightarrow>
     (\<Sum>(k, h)\<leftarrow>pm. g h) = (\<Sum>k\<in>set (map fst pm). g (or0 (map_of pm k)))"
  for g :: "real \<Rightarrow> real"
proof (induction pm)
  case Nil
  then show ?case by simp
next
  case (Cons p pm)
  obtain k h where p: "p = (k, h)" by (cases p)
  from Cons.prems p have k: "k \<notin> fst ` set pm" and d: "distinct (map fst pm)" by auto
  have "(\<Sum>k'\<in>set (map fst pm). g (or0 (map_of (p # pm) k')))
          = (\<Sum>k'\<in>set (map fst pm). g (or0 (map_of pm k')))"
    using k by (intro sum.cong) (auto simp: p)
  with Cons.IH[OF d] k show ?case
    by (simp add: p or0_def)
qed

lemma overtime_of_employee:
  "overtimeOfPeriods maxH (fold periodStep xs []) t =
     t + (\<Sum>k\<leftarrow>remdups (map date_or_week xs).
            max 0 ((\<Sum>a\<leftarrow>filter (\<lambda>a. date_or_week a = k) xs. hours a) - maxH))"
proof -
  let ?pm = "fold periodStep xs []"
  let ?h = "\<lambda>k. \<Sum>a\<leftarrow>filter (\<lambda>a. date_or_week a = k) xs. hours a"
  have d: "distinct (map fst ?pm)" by (rule fold_periodStep_distinct) simp
  have "(\<Sum>(k, h)\<leftarrow>?pm. max 0 (h - maxH))
          = (\<Sum>k\<in>set (map fst ?pm). max 0 (or0 (map_of ?pm k) - maxH))"
    by (rule sum_list_distinct_keys[OF d])
  also have "\<dots> = (\<Sum>k\<in>set (remdups (map date_or_week xs)). max 0 (?h k - maxH))"
  proof (rule sum.cong)
    show "set (map fst ?pm) = set (remdups (map date_or_week xs))"
      using fold_periodStep_keys[of xs "[]"] by simp
  next
    fix k
    show "max 0 (or0 (map_of ?pm k) - maxH) = max 0 (?h k - maxH)"
      using fold_periodStep_value[of xs "[]" k] by (simp add: or0_def)
  qed
  also have "\<dots> = (\<Sum>k\<leftarrow>remdups (map date_or_week xs). max 0 (?h k - maxH))"
    by (simp add: sum_list_distinct_conv_sum_set)
  finally show ?thesis by (simp add: overtimeOfPeriods_sum)
qed

lemma overtime_step:
  "(case jsMap_get (fold addPeriodHours xs []) (emp_id e) of
      None \<Rightarrow> t
    | Some periodHours \<Rightarrow> overtimeOfPeriods (maxHours e) periodHours t)
   = t + spec_overtimeOf e xs"
proof -
  let ?m = "fold addPeriodHours xs []"
  let ?ys = "filter (\<lambda>a. employeeId a = emp_id e) xs"
  have filt: "\<And>k. filter (\<lambda>a. date_or_week a = k) ?ys
                 = filter (\<lambda>a. employeeId a = emp_id e \<and> date_or_week a = k) xs"
    by (simp add: conj_commute)
  show ?thesis
  proof (cases "map_of ?m (emp_id e)")
    case None
    then have "?ys = []" by (simp add: fold_addPeriodHours_None)
    with None show ?thesis
      by (simp add: jsMap_get_def spec_overtimeOf_def spec_periodsOf_def)
  next
    case (Some pm)
    then have "pm = periodMapOf ?m (emp_id e)" by (simp add: periodMapOf_def)
    moreover have "periodMapOf ?m (emp_id e) = fold periodStep ?ys []"
      using fold_addPeriodHours_periodMapOf[of xs "[]" "emp_id e"] by (simp add: periodMapOf_def)
    ultimately have "pm = fold periodStep ?ys []" by simp
    with Some show ?thesis
      by (simp add: jsMap_get_def overtime_of_employee spec_overtimeOf_def spec_periodsOf_def
            spec_periodHours_def filt)
  qed
qed

lemma sumOvertime_spec:
  "sumOvertime employees (fold addPeriodHours xs []) = spec_overtime employees xs"
proof -
  have "fold (\<lambda>employee t.
                case jsMap_get (fold addPeriodHours xs []) (emp_id employee) of
                  None \<Rightarrow> t
                | Some periodHours \<Rightarrow> overtimeOfPeriods (maxHours employee) periodHours t) es t0
        = t0 + (\<Sum>e\<leftarrow>es. spec_overtimeOf e xs)" for es t0
    by (induction es arbitrary: t0) (simp_all add: overtime_step algebra_simps)
  then show ?thesis
    by (simp add: sumOvertime_def spec_overtime_def)
qed

lemma calculateTotalOvertime_spec:
  "calculateTotalOvertime employees assignments
     = spec_overtime employees (filter (\<lambda>a. \<not> isPlaceholder a) assignments)"
proof -
  have "(\<lambda>a. truthy (employeeId a) \<and> employeeId a \<noteq> ''Placeholder'' \<and>
              employeeId a \<noteq> ''placeholder'' \<and> \<not> startsWith (employeeId a) ''Placeholder '')
        = (\<lambda>a. \<not> isPlaceholder a)"
    by (auto simp: isPlaceholder_def isPlaceholderId_def)
  then show ?thesis
    by (simp add: calculateTotalOvertime_def fold_if_filter sumOvertime_spec)
qed

lemma calculateMetrics_overtime:
  "overtimeHours (calculateMetrics dw employees projects assignments dateRange)
     = Math_round (spec_overtime employees assignments)"
  by (simp add: calculateMetrics_def Let_def sumOvertime_spec)










section \<open>A placeholder in a new period\<close>

lemma spec_totalAssignedHours_insert:
  assumes "employeeId p \<notin> emp_id ` set employees"
  shows "spec_totalAssignedHours employees (xs @ p # ys) = spec_totalAssignedHours employees (xs @ ys)"
proof -
  have "map (\<lambda>e. \<Sum>a\<leftarrow>filter (\<lambda>a. employeeId a = emp_id e) (xs @ p # ys). hours a) employees
      = map (\<lambda>e. \<Sum>a\<leftarrow>filter (\<lambda>a. employeeId a = emp_id e) (xs @ ys). hours a) employees"
  proof (rule map_cong[OF refl])
    fix e assume "e \<in> set employees"
    with assms have "employeeId p \<noteq> emp_id e" by auto
    then show "(\<Sum>a\<leftarrow>filter (\<lambda>a. employeeId a = emp_id e) (xs @ p # ys). hours a)
      = (\<Sum>a\<leftarrow>filter (\<lambda>a. employeeId a = emp_id e) (xs @ ys). hours a)" by simp
  qed
  then show ?thesis
    unfolding spec_totalAssignedHours_def by (rule arg_cong[where f = sum_list])
qed

lemma spec_totalAssignedHours_nonneg:
  assumes "\<forall>a\<in>set assignments. 0 \<le> hours a"
  shows "0 \<le> spec_totalAssignedHours employees assignments"
  unfolding spec_totalAssignedHours_def using assms
  by (intro sum_list_nonneg) (auto intro!: sum_list_nonneg)

lemma spec_numPeriods_new:
  assumes "date_or_week p \<notin> date_or_week ` set (xs @ ys)"
  shows "spec_numPeriods dw (xs @ p # ys) None =
           (if xs @ ys = [] then 1 else spec_numPeriods dw (xs @ ys) None + 1)"
proof -
  have "date_or_week ` set (xs @ p # ys) = insert (date_or_week p) (date_or_week ` set (xs @ ys))"
    by auto
  then have c: "card (date_or_week ` set (xs @ p # ys)) = Suc (card (date_or_week ` set (xs @ ys)))"
    using assms by (simp del: set_append)
  show ?thesis
  proof (cases "xs @ ys = []")
    case True
    then show ?thesis by (simp add: spec_numPeriods_def)
  next
    case False
    then have "card (date_or_week ` set (xs @ ys)) > 0"
      by (auto simp: card_gt_0_iff simp del: set_append)
    with c False show ?thesis
      by (simp add: spec_numPeriods_def max_def del: set_append)
  qed
qed

text \<open>
  Claim C10, as the code has it. Without a date range, \<open>calculateResourceUtilization\<close> sums
  the hours of the listed employees only, so that a placeholder assignment adds nothing to
  the total assigned hours unless an employee record carries its id, while its period key
  counts among the distinct periods. With hours that are not negative and no listed
  employee under a placeholder id, a placeholder in a period of its own raises the number
  of periods by one (from the 1 of an empty list to 1) and the utilization stays or falls.
\<close>

theorem placeholder_in_new_period_lowers_utilization:
  assumes ph: "isPlaceholder p"
      and listed: "\<forall>e\<in>set employees. \<not> isPlaceholderId (emp_id e)"
      and nonneg: "\<forall>a\<in>set (xs @ ys). 0 \<le> hours a"
      and new: "date_or_week p \<notin> date_or_week ` set (xs @ ys)"
  shows "snd (capacityAndHours (numPeriods dw (xs @ p # ys) None)
                (employeeAssignedHours (xs @ p # ys)) employees)
           = snd (capacityAndHours (numPeriods dw (xs @ ys) None)
                    (employeeAssignedHours (xs @ ys)) employees) \<and>
         numPeriods dw (xs @ p # ys) None
           = (if xs @ ys = [] then 1 else numPeriods dw (xs @ ys) None + 1) \<and>
         calculateResourceUtilization dw employees (xs @ p # ys) None
           \<le> calculateResourceUtilization dw employees (xs @ ys) None"
proof -
  have notin: "employeeId p \<notin> emp_id ` set employees"
    using ph listed by (auto simp: isPlaceholder_def)
  note T = spec_totalAssignedHours_insert[OF notin, of xs ys]
  note N = spec_numPeriods_new[OF new, of dw]
  let ?T = "spec_totalAssignedHours employees (xs @ ys)"
  let ?C = "\<Sum>e\<leftarrow>employees. maxHours e"
  let ?n = "spec_numPeriods dw (xs @ ys) None"
  let ?n' = "spec_numPeriods dw (xs @ p # ys) None"
  have T0: "0 \<le> ?T" by (rule spec_totalAssignedHours_nonneg[OF nonneg])
  have n1: "1 \<le> ?n" by (simp add: spec_numPeriods_def)
  have nn: "?n \<le> ?n'" using N n1 by (auto simp: spec_numPeriods_def split: if_splits)
  have le: "calculateResourceUtilization dw employees (xs @ p # ys) None
           \<le> calculateResourceUtilization dw employees (xs @ ys) None"
  proof (cases "employees = []")
    case True
    then show ?thesis by (simp add: calculateResourceUtilization_def)
  next
    case False
    show ?thesis
    proof (cases "?C > 0")
      case True
      have pos: "0 < ?C * ?n" "0 < ?C * ?n'" using True n1 nn by auto
      have "?C * ?n \<le> ?C * ?n'" using True nn by simp
      then have "?T / (?C * ?n') \<le> ?T / (?C * ?n)"
        using T0 pos by (intro divide_left_mono) auto
      then have "?T / (?C * ?n') * 100 \<le> ?T / (?C * ?n) * 100"
        by (rule mult_right_mono) simp
      then have "Math_round (?T / (?C * ?n') * 100) \<le> Math_round (?T / (?C * ?n) * 100)"
        by (rule Math_round_mono)
      with False pos show ?thesis
        by (simp add: calculateResourceUtilization_eq spec_totalCapacity_def T)
    next
      case F: False
      have "?C * ?n \<le> 0" "?C * ?n' \<le> 0"
        using F n1 nn by (auto simp: mult_le_0_iff)
      with False show ?thesis
        by (simp add: calculateResourceUtilization_eq spec_totalCapacity_def)
    qed
  qed
  show ?thesis
    using le by (simp add: capacityAndHours_eq T numPeriods_spec N)
qed

lemma ex_slot_utilization:
  "calculateResourceUtilization ex_weeks [ex_john] (ex_two_weeks @ [ex_slot]) None = 50"
  by (simp add: container_defs batch_defs example_defs)

lemma ex_two_weeks_periods: "numPeriods ex_weeks ex_two_weeks None = 2"
  by (simp add: container_defs batch_defs example_defs)

text \<open>John's 60 hours over two weeks are 75 percent of 80 hours; with an open slot in a
  third week they are 50 percent of 120 hours.\<close>

theorem placeholder_in_new_period_lowers_utilization_witness:
  "numPeriods ex_weeks (ex_two_weeks @ [ex_slot]) None = 3 \<and>
   calculateResourceUtilization ex_weeks [ex_john] (ex_two_weeks @ [ex_slot]) None
     \<le> calculateResourceUtilization ex_weeks [ex_john] ex_two_weeks None \<and>
   calculateResourceUtilization ex_weeks [ex_john] (ex_two_weeks @ [ex_slot]) None = 50 \<and>
   calculateResourceUtilization ex_weeks [ex_john] ex_two_weeks None = 75"
proof -
  have ph: "isPlaceholder ex_slot"
    by (simp add: optimizer_defs container_defs example_defs)
  have listed: "\<forall>e\<in>set [ex_john]. \<not> isPlaceholderId (emp_id e)"
    by (simp add: optimizer_defs container_defs example_defs)
  have nonneg: "\<forall>a\<in>set (ex_two_weeks @ []). 0 \<le> hours a"
    by (simp add: example_defs)
  have new: "date_or_week ex_slot \<notin> date_or_week ` set (ex_two_weeks @ [])"
    by (simp add: date_or_week_def truthy_def example_defs)
  have two: "ex_two_weeks \<noteq> []"
    by (simp add: ex_two_weeks_def)
  from placeholder_in_new_period_lowers_utilization[OF ph listed nonneg new, of ex_weeks] two
  show ?thesis
    by (simp add: ex_two_weeks_periods ex_slot_utilization utilization_example)
qed

text \<open>The claim C10 as it is written fails where an employee record carries the id of the
  placeholder: the hours of the placeholder assignment are summed for that record, and the
  utilization rises from 0 to 125.\<close>

theorem listed_placeholder_raises_utilization:
  "isPlaceholder ex_tbd_slot \<and>
   calculateResourceUtilization ex_weeks [ex_tbd] [] None = 0 \<and>
   snd (capacityAndHours (numPeriods ex_weeks [ex_tbd_slot] None)
          (employeeAssignedHours [ex_tbd_slot]) [ex_tbd]) = 50 \<and>
   calculateResourceUtilization ex_weeks [ex_tbd] [ex_tbd_slot] None = 125"
  by (simp add: optimizer_defs batch_defs container_defs example_defs Let_def)


section \<open>Incremental metrics cache\<close>

text \<open>
  Claim C9. \<open>updateAssignment\<close> and \<open>removeAssignment\<close> with an id that the assignment map
  does not hold return at once: the whole state, that is the assignment map, the two
  indices, the result cache with its dirty flag and the dirty sets, is the state before.
\<close>

theorem unknown_assignment_id_is_noop:
  assumes "jsMap_get (c_assignments this) assignmentId = None"
  shows "updateAssignment assignmentId updates this = this \<and>
         removeAssignment assignmentId this = this"
  using assms by (simp add: updateAssignment_def removeAssignment_def)

lemma ex_initial_assignments:
  "c_assignments (initialize 0 [ex_john] [ex_project] ex_two_weeks)
     = [(''1'', ex_asg ''1'' ''john'' 10 ''week1'' ''2024-01-01''),
        (''2'', ex_asg ''2'' ''john'' 50 ''week2'' ''2024-01-08'')]"
  by (simp add: container_defs incremental_defs example_defs)

text \<open>The cache holds the assignments 1 and 2; an update and a removal of the id 7 change
  nothing.\<close>

theorem unknown_assignment_id_is_noop_witness:
  "updateAssignment ''7''
     \<lparr>u_id = None, u_employeeId = Some ''jane'', u_projectId = None, u_hours = Some 8,
      u_week = None, u_date = None\<rparr>
     (initialize 0 [ex_john] [ex_project] ex_two_weeks)
     = initialize 0 [ex_john] [ex_project] ex_two_weeks \<and>
   removeAssignment ''7'' (initialize 0 [ex_john] [ex_project] ex_two_weeks)
     = initialize 0 [ex_john] [ex_project] ex_two_weeks"
  using unknown_assignment_id_is_noop[of "initialize 0 [ex_john] [ex_project] ex_two_weeks" "''7''"]
  by (simp add: ex_initial_assignments jsMap_get_def)

text \<open>
  Claim C1, evaluated on the code. The cache is initialized with John, the project
  \<open>p1\<close> and one assignment; then an assignment of John to the unknown project \<open>ghost\<close> is
  added. \<open>getMetrics\<close> recalculates the dirty project \<open>ghost\<close>, finds no such project and
  caches a skills match of 100 for it, so that the average over the cached projects is 85.
  \<open>initialize\<close> on the final employees, projects and assignments calculates the listed
  projects only and gives 70.
\<close>

theorem incremental_differs_from_full_recompute:
  "fst (getMetrics 1 (addAssignment ex_ghost (initialize 0 [ex_john] [ex_project] [ex_first])))
     = \<lparr>overtimeHours = 0, resourceUtilization = 25, skillsMatching = 85\<rparr> \<and>
   jsMap_values (c_employees (addAssignment ex_ghost (initialize 0 [ex_john] [ex_project] [ex_first])))
     = [ex_john] \<and>
   jsMap_values (c_projects (addAssignment ex_ghost (initialize 0 [ex_john] [ex_project] [ex_first])))
     = [ex_project] \<and>
   jsMap_values (c_assignments (addAssignment ex_ghost (initialize 0 [ex_john] [ex_project] [ex_first])))
     = [ex_first, ex_ghost] \<and>
   fst (getMetrics 1 (initialize 1 [ex_john] [ex_project] [ex_first, ex_ghost]))
     = \<lparr>overtimeHours = 0, resourceUtilization = 25, skillsMatching = 70\<rparr>"
  by (simp add: container_defs incremental_defs example_defs)


section \<open>Placeholder optimizer\<close>

text \<open>
  Claim C8. For a data set without placeholder assignments \<open>optimizeSchedule\<close> returns no
  suggestion and the total score 0, and each predicted metric is the current metric.
\<close>

theorem optimizer_noop_without_placeholders:
  assumes "filter isPlaceholder (d_assignments data) = []"
  shows "res_suggestions (optimizeSchedule dw data algorithm weights dateRange) = [] \<and>
         res_totalScore (optimizeSchedule dw data algorithm weights dateRange) = Fin 0 \<and>
         predictedOvertimeHours (res_metrics (optimizeSchedule dw data algorithm weights dateRange))
           = currentOvertimeHours (res_metrics (optimizeSchedule dw data algorithm weights dateRange)) \<and>
         predictedUtilization (res_metrics (optimizeSchedule dw data algorithm weights dateRange))
           = currentUtilization (res_metrics (optimizeSchedule dw data algorithm weights dateRange)) \<and>
         predictedSkillsMatch (res_metrics (optimizeSchedule dw data algorithm weights dateRange))
           = currentSkillsMatch (res_metrics (optimizeSchedule dw data algorithm weights dateRange))"
  using assms by (simp add: optimizeSchedule_def optimizationMetrics_def Let_def)

lemma ex_staffed_no_placeholder: "filter isPlaceholder (d_assignments ex_staffed) = []"
  by (simp add: optimizer_defs container_defs example_defs)

lemma ex_staffed_current:
  "currentOvertimeHours (res_metrics (optimizeSchedule ex_weeks ex_staffed genetic ex_weights None)) = 0 \<and>
   currentUtilization (res_metrics (optimizeSchedule ex_weeks ex_staffed genetic ex_weights None)) = 50 \<and>
   currentSkillsMatch (res_metrics (optimizeSchedule ex_weeks ex_staffed genetic ex_weights None)) = 2"
  by (simp add: optimizer_defs batch_defs container_defs example_defs Let_def)

text \<open>John and Jane fill all four assignments: nothing is suggested, and the predicted
  metrics are the current ones, no overtime, 50 percent and 2 skill points.\<close>

theorem optimizer_noop_without_placeholders_witness:
  "res_suggestions (optimizeSchedule ex_weeks ex_staffed genetic ex_weights None) = [] \<and>
   res_totalScore (optimizeSchedule ex_weeks ex_staffed genetic ex_weights None) = Fin 0 \<and>
   predictedOvertimeHours (res_metrics (optimizeSchedule ex_weeks ex_staffed genetic ex_weights None)) = 0 \<and>
   predictedUtilization (res_metrics (optimizeSchedule ex_weeks ex_staffed genetic ex_weights None)) = 50 \<and>
   predictedSkillsMatch (res_metrics (optimizeSchedule ex_weeks ex_staffed genetic ex_weights None)) = 2"
  using optimizer_noop_without_placeholders[OF ex_staffed_no_placeholder,
      of ex_weeks genetic ex_weights None]
    ex_staffed_current
  by simp

subsection \<open>The choice of an employee\<close>

lemma currentHoursOf_sum:
  "currentHoursOf data e
     = (\<Sum>a\<leftarrow>filter (\<lambda>a. employeeId a = emp_id e) (d_assignments data). hours a)"
proof -
  have f: "fold (\<lambda>a acc. acc + hours a) xs z = z + (\<Sum>a\<leftarrow>xs. hours a)" for xs z
    by (induction xs arbitrary: z) auto
  show ?thesis unfolding currentHoursOf_def f by simp
qed

lemma currentHoursOf_nonneg:
  assumes "\<forall>a\<in>set (d_assignments data). 0 \<le> hours a"
  shows "0 \<le> currentHoursOf data e"
  unfolding currentHoursOf_sum using assms by (intro sum_list_nonneg) auto

text \<open>With hours that are not negative the score of a candidate is a finite number, also
  for an employee without capacity: the quotient is then infinite or not a number, and
  the comparison with 1 is false.\<close>

lemma candidateScore_finite:
  assumes "0 \<le> currentHoursOf data e + hours ph"
  shows "\<exists>x. candidateScore ph project data w m e = Fin x"
proof (cases "maxHours e = 0")
  case True
  with assms show ?thesis
    by (cases "currentHoursOf data e + hours ph = 0")
       (auto simp: candidateScore_def js_div_def Let_def)
next
  case False
  then show ?thesis
    by (auto simp: candidateScore_def js_div_def Let_def)
qed

lemma fold_best_Some:
  assumes "\<forall>e\<in>set cs. \<exists>x. sc e = Fin x" and "set cs \<subseteq> S" and "b \<in> S"
  shows "\<exists>e x. fold (\<lambda>employee (bestEmployee, bestScore).
                     let score = sc employee
                     in if js_gt score bestScore then (Some employee, score)
                        else (bestEmployee, bestScore)) cs (Some b, Fin y) = (Some e, Fin x) \<and>
               e \<in> S"
  using assms
proof (induction cs arbitrary: b y)
  case Nil
  then show ?case by simp
next
  case (Cons c cs)
  then obtain x where x: "sc c = Fin x" by auto
  show ?case
  proof (cases "x > y")
    case True
    with x Cons.IH[of c x] Cons.prems show ?thesis by (simp add: Let_def)
  next
    case False
    with x Cons.IH[of b y] Cons.prems show ?thesis by (simp add: Let_def)
  qed
qed

lemma fold_best_member:
  "fst (fold (\<lambda>employee (bestEmployee, bestScore).
                let score = sc employee
                in if js_gt score bestScore then (Some employee, score)
                   else (bestEmployee, bestScore)) cs (b, s)) = Some e
     \<Longrightarrow> b = Some e \<or> e \<in> set cs"
  by (induction cs arbitrary: b s) (auto simp: Let_def split: if_splits)

lemma findBestEmployee_member:
  assumes "findBestEmployee ph project data w m alg used = Some e"
  shows "e \<in> set (candidates data used)"
  using assms fold_best_member[of "candidateScore ph project data w m" "candidates data used"
      None NegInf e]
  by (auto simp: findBestEmployee_def split: if_splits)

lemma findBestEmployee_Some:
  assumes "candidates data used \<noteq> []"
      and "\<forall>e\<in>set (candidates data used). \<exists>x. candidateScore ph project data w m e = Fin x"
  shows "\<exists>e. findBestEmployee ph project data w m alg used = Some e"
proof -
  obtain c cs where cs: "candidates data used = c # cs"
    using assms(1) by (cases "candidates data used") auto
  obtain x where x: "candidateScore ph project data w m c = Fin x"
    using assms(2) cs by auto
  have "\<exists>e x'. fold (\<lambda>employee (bestEmployee, bestScore).
                     let score = candidateScore ph project data w m employee
                     in if js_gt score bestScore then (Some employee, score)
                        else (bestEmployee, bestScore)) cs (Some c, Fin x) = (Some e, Fin x') \<and>
                e \<in> set (c # cs)"
    by (rule fold_best_Some) (use assms(2) cs in auto)
  then show ?thesis
    by (auto simp: findBestEmployee_def cs x Let_def)
qed

lemma candidates_add:
  "candidates data (jsSet_add i used) = filter (\<lambda>e. emp_id e \<noteq> i) (candidates data used)"
  by (auto simp: candidates_def jsSet_has_def jsSet_add_set intro: filter_cong)

lemma candidates_subset: "set (candidates data used) \<subseteq> set (d_employees data)"
  by (auto simp: candidates_def)

subsection \<open>The suggestions of one group\<close>

lemma groupSuggestions_ids_subset:
  "set (map suggestedEmployeeId (groupSuggestions data w m alg project used phs))
     \<subseteq> emp_id ` set (candidates data used)"
proof (induction phs arbitrary: used)
  case Nil
  then show ?case by simp
next
  case (Cons ph phs)
  show ?case
  proof (cases "findBestEmployee ph project data w m alg used")
    case None
    with Cons.IH[of used] show ?thesis by simp
  next
    case (Some e)
    have "set (candidates data (jsSet_add (emp_id e) used)) \<subseteq> set (candidates data used)"
      by (auto simp: candidates_add)
    moreover have "e \<in> set (candidates data used)"
      using Some by (rule findBestEmployee_member)
    ultimately have "emp_id e \<in> emp_id ` set (candidates data used)"
      and "set (map suggestedEmployeeId
                  (groupSuggestions data w m alg project (jsSet_add (emp_id e) used) phs))
             \<subseteq> emp_id ` set (candidates data used)"
      using Cons.IH[of "jsSet_add (emp_id e) used"] by blast+
    with Some show ?thesis
      by (auto simp: Let_def split: prod.splits)
  qed
qed

lemma groupSuggestions_all:
  assumes "\<forall>ph\<in>set phs. \<forall>e\<in>set (d_employees data).
             \<exists>x. candidateScore ph project data w m e = Fin x"
      and "length phs \<le> card (emp_id ` set (candidates data used))"
  shows "length (groupSuggestions data w m alg project used phs) = length phs \<and>
         distinct (map suggestedEmployeeId (groupSuggestions data w m alg project used phs))"
  using assms
proof (induction phs arbitrary: used)
  case Nil
  then show ?case by simp
next
  case (Cons ph phs)
  from Cons.prems(2) have "card (emp_id ` set (candidates data used)) \<noteq> 0" by auto
  then have ne: "candidates data used \<noteq> []" by auto
  have fin: "\<forall>e\<in>set (candidates data used). \<exists>x. candidateScore ph project data w m e = Fin x"
  proof
    fix e assume "e \<in> set (candidates data used)"
    then have "e \<in> set (d_employees data)" using candidates_subset[of data used] by blast
    with Cons.prems(1) show "\<exists>x. candidateScore ph project data w m e = Fin x" by simp
  qed
  from findBestEmployee_Some[OF ne fin]
  obtain e where e: "findBestEmployee ph project data w m alg used = Some e" by blast
  then have mem: "e \<in> set (candidates data used)" by (rule findBestEmployee_member)
  let ?used = "jsSet_add (emp_id e) used"
  have ids: "emp_id ` set (candidates data ?used) = emp_id ` set (candidates data used) - {emp_id e}"
    by (auto simp: candidates_add)
  have "card (emp_id ` set (candidates data ?used)) = card (emp_id ` set (candidates data used)) - 1"
    unfolding ids using mem by (simp add: card_Diff_singleton)
  with Cons.prems(2) have le: "length phs \<le> card (emp_id ` set (candidates data ?used))" by simp
  have IH: "length (groupSuggestions data w m alg project ?used phs) = length phs \<and>
         distinct (map suggestedEmployeeId (groupSuggestions data w m alg project ?used phs))"
    by (rule Cons.IH) (use Cons.prems(1) le in auto)
  have "emp_id e \<notin> set (map suggestedEmployeeId (groupSuggestions data w m alg project ?used phs))"
    using groupSuggestions_ids_subset[of data w m alg project ?used phs] ids by auto
  with IH e show ?case
    by (auto simp: Let_def split: prod.splits)
qed

lemma placeholderGroups_members:
  "(key, g) \<in> set (placeholderGroups xs) \<Longrightarrow> g \<noteq> [] \<and> set g \<subseteq> set xs"
proof -
  let ?step = "\<lambda>placeholder groups.
             let key = placeholderKey placeholder;
                 g1 = (if \<not> jsMap_has groups key then jsMap_set key [] groups else groups)
             in case jsMap_get g1 key of
                  None \<Rightarrow> g1
                | Some members \<Rightarrow> jsMap_set key (members @ [placeholder]) g1"
  have step: "\<forall>(k, g)\<in>set (?step x m). g \<noteq> [] \<and> set g \<subseteq> S"
    if "\<forall>(k, g)\<in>set m. g \<noteq> [] \<and> set g \<subseteq> S" "x \<in> S" for x m and S :: "Assignment set"
  proof -
    define ms where "ms = (case map_of m (placeholderKey x) of None \<Rightarrow> [] | Some ms \<Rightarrow> ms)"
    have eq: "?step x m = AList.update (placeholderKey x) (ms @ [x]) m"
      by (simp add: ms_def jsMap_has_def jsMap_get_def jsMap_set_def update_conv' Let_def
            split: option.splits)
    have ms: "set ms \<subseteq> S"
    proof (cases "map_of m (placeholderKey x)")
      case None
      then show ?thesis by (simp add: ms_def)
    next
      case (Some ms')
      then have "(placeholderKey x, ms') \<in> set m" by (rule map_of_SomeD)
      with that(1) Some show ?thesis by (auto simp: ms_def)
    qed
    have sub: "set (AList.update (placeholderKey x) (ms @ [x]) m)
                 \<subseteq> insert (placeholderKey x, ms @ [x]) (set m)"
      by (rule set_AList_update_subset)
    show ?thesis
      unfolding eq
    proof (clarify)
      fix k g assume "(k, g) \<in> set (AList.update (placeholderKey x) (ms @ [x]) m)"
      with sub have "(k, g) = (placeholderKey x, ms @ [x]) \<or> (k, g) \<in> set m" by blast
      then show "g \<noteq> [] \<and> set g \<subseteq> S"
        using ms that by auto
    qed
  qed
  have "\<forall>(k, g)\<in>set (fold ?step ys m). g \<noteq> [] \<and> set g \<subseteq> S"
    if "\<forall>(k, g)\<in>set m. g \<noteq> [] \<and> set g \<subseteq> S" "set ys \<subseteq> S" for ys m and S :: "Assignment set"
    using that
  proof (induction ys arbitrary: m)
    case Nil
    then show ?case by simp
  next
    case (Cons y ys)
    have "\<forall>(k, g)\<in>set (?step y m). g \<noteq> [] \<and> set g \<subseteq> S"
      by (rule step) (use Cons.prems in auto)
    from Cons.IH[OF this] Cons.prems(2) show ?case by simp
  qed
  from this[of "[]" "set xs" xs]
  show "(key, g) \<in> set (placeholderGroups xs) \<Longrightarrow> g \<noteq> [] \<and> set g \<subseteq> set xs"
    by (auto simp: placeholderGroups_def)
qed

text \<open>The suggestions of \<open>optimizeSchedule\<close> are the suggestions of its groups, one group
  after the other.\<close>

lemma optimizeSchedule_suggestions:
  "res_suggestions (optimizeSchedule dw data algorithm weights dateRange) =
     concat (map (suggestionsOfGroup data weights
                    (createSkillScoreMatrix (d_employees data) (d_projects data)) algorithm
                    (jsMap_of_entries (map (\<lambda>p. (proj_id p, p)) (d_projects data))))
               (jsMap_values (placeholderGroups (filter isPlaceholder (d_assignments data)))))"
  by (simp add: optimizeSchedule_def Let_def placeholderGroups_def jsMap_values_def)

text \<open>
  Claim C7, as the code has it. A group whose project is not in the project list is
  skipped and gets no suggestion, however many employees are eligible. For a group of
  \<open>N\<close> placeholders whose project ids are in the project list, with hours that are not
  negative and at least \<open>N\<close> distinct ids among the eligible employees, the loop emits
  exactly \<open>N\<close> suggestions, and their employee ids are pairwise distinct.
\<close>

theorem group_suggestions_complete_and_distinct:
  assumes grp: "(key, placeholders)
                  \<in> set (placeholderGroups (filter isPlaceholder (d_assignments data)))"
      and proj: "\<forall>ph\<in>set placeholders. projectId ph \<in> proj_id ` set (d_projects data)"
      and nonneg: "\<forall>a\<in>set (d_assignments data). 0 \<le> hours a"
      and enough: "length placeholders \<le> card (emp_id ` set (candidates data []))"
  shows "length (suggestionsOfGroup data weights skillScoreMatrix algorithm
                   (jsMap_of_entries (map (\<lambda>p. (proj_id p, p)) (d_projects data))) placeholders)
           = length placeholders \<and>
         distinct (map suggestedEmployeeId
                    (suggestionsOfGroup data weights skillScoreMatrix algorithm
                       (jsMap_of_entries (map (\<lambda>p. (proj_id p, p)) (d_projects data)))
                       placeholders))"
proof -
  from placeholderGroups_members[OF grp]
  have ne: "placeholders \<noteq> []" and sub: "set placeholders \<subseteq> set (d_assignments data)" by auto
  then obtain first rest where phs: "placeholders = first # rest" by (cases placeholders) auto
  with proj have "projectId first \<in> proj_id ` set (d_projects data)" by simp
  then obtain project where
    project: "jsMap_get (jsMap_of_entries (map (\<lambda>p. (proj_id p, p)) (d_projects data)))
                (projectId first) = Some project"
    using jsMap_of_entries_get_None[of proj_id "d_projects data" "projectId first"] by auto
  have fin: "\<forall>ph\<in>set placeholders. \<forall>e\<in>set (d_employees data).
               \<exists>x. candidateScore ph project data weights skillScoreMatrix e = Fin x"
  proof (intro ballI)
    fix ph e assume "ph \<in> set placeholders"
    with sub nonneg have "0 \<le> hours ph" by auto
    with currentHoursOf_nonneg[OF nonneg, of e]
    have "0 \<le> currentHoursOf data e + hours ph" by simp
    then show "\<exists>x. candidateScore ph project data weights skillScoreMatrix e = Fin x"
      by (rule candidateScore_finite)
  qed
  from groupSuggestions_all[OF fin enough, of algorithm]
  show ?thesis
    by (simp add: suggestionsOfGroup_def phs project)
qed

lemma ex_two_slots_groups:
  "placeholderGroups (filter isPlaceholder (d_assignments ex_two_slots))
     = [(''p1-2024-W01'', d_assignments ex_two_slots)]"
  by (simp add: optimizer_defs container_defs example_defs Let_def)

lemma ex_two_slots_candidates: "candidates ex_two_slots [] = [ex_john, ex_jane]"
  by (simp add: optimizer_defs container_defs example_defs)

lemma ex_two_slots_suggestions:
  "map suggestedEmployeeId
     (suggestionsOfGroup ex_two_slots ex_weights
        (createSkillScoreMatrix (d_employees ex_two_slots) (d_projects ex_two_slots)) genetic
        (jsMap_of_entries (map (\<lambda>p. (proj_id p, p)) (d_projects ex_two_slots)))
        (d_assignments ex_two_slots))
     = [''john'', ''jane'']"
  by (simp add: optimizer_defs batch_defs container_defs example_defs Let_def)

text \<open>Two open slots of the project \<open>p1\<close> in one week, and the two employees John and Jane:
  the group gets two suggestions, John for the first slot and Jane for the second.\<close>

theorem group_suggestions_complete_and_distinct_witness:
  "length (suggestionsOfGroup ex_two_slots ex_weights
             (createSkillScoreMatrix (d_employees ex_two_slots) (d_projects ex_two_slots)) genetic
             (jsMap_of_entries (map (\<lambda>p. (proj_id p, p)) (d_projects ex_two_slots)))
             (d_assignments ex_two_slots)) = 2 \<and>
   distinct (map suggestedEmployeeId
               (suggestionsOfGroup ex_two_slots ex_weights
                  (createSkillScoreMatrix (d_employees ex_two_slots) (d_projects ex_two_slots))
                  genetic
                  (jsMap_of_entries (map (\<lambda>p. (proj_id p, p)) (d_projects ex_two_slots)))
                  (d_assignments ex_two_slots))) \<and>
   map suggestedEmployeeId
     (suggestionsOfGroup ex_two_slots ex_weights
        (createSkillScoreMatrix (d_employees ex_two_slots) (d_projects ex_two_slots)) genetic
        (jsMap_of_entries (map (\<lambda>p. (proj_id p, p)) (d_projects ex_two_slots)))
        (d_assignments ex_two_slots))
     = [''john'', ''jane'']"
proof -
  have grp: "(''p1-2024-W01'', d_assignments ex_two_slots)
               \<in> set (placeholderGroups (filter isPlaceholder (d_assignments ex_two_slots)))"
    by (simp add: ex_two_slots_groups)
  have proj: "\<forall>ph\<in>set (d_assignments ex_two_slots).
                projectId ph \<in> proj_id ` set (d_projects ex_two_slots)"
    by (simp add: example_defs)
  have nonneg: "\<forall>a\<in>set (d_assignments ex_two_slots). 0 \<le> hours a"
    by (simp add: example_defs)
  have "emp_id ` set (candidates ex_two_slots []) = {''john'', ''jane''}"
    by (simp add: ex_two_slots_candidates ex_john_def ex_jane_def)
  then have "card (emp_id ` set (candidates ex_two_slots [])) = 2"
    by simp
  moreover have "length (d_assignments ex_two_slots) = 2"
    by (simp add: ex_two_slots_def)
  ultimately have enough:
    "length (d_assignments ex_two_slots) \<le> card (emp_id ` set (candidates ex_two_slots []))"
    by simp
  from group_suggestions_complete_and_distinct[OF grp proj nonneg enough,
      of ex_weights "createSkillScoreMatrix (d_employees ex_two_slots) (d_projects ex_two_slots)"
         genetic]
  show ?thesis
    using \<open>length (d_assignments ex_two_slots) = 2\<close>
    by (simp add: ex_two_slots_suggestions)
qed

text \<open>The claim C7 as it is written fails where the project of the group is unknown: the
  data set has one group of one placeholder of the project \<open>p9\<close>, which is not in the
  project list, and two eligible employees, and \<open>optimizeSchedule\<close> suggests nobody.\<close>

theorem group_without_project_gets_no_suggestion:
  "placeholderGroups (filter isPlaceholder (d_assignments ex_unknown_project))
     = [(''p9-2024-W01'', d_assignments ex_unknown_project)] \<and>
   length (d_assignments ex_unknown_project) = 1 \<and>
   candidates ex_unknown_project [] = [ex_john, ex_jane] \<and>
   res_suggestions (optimizeSchedule ex_weeks ex_unknown_project genetic ex_weights None) = []"
  by (simp add: optimizer_defs batch_defs container_defs example_defs Let_def)

lemma ex_relabelled_groups:
  "placeholderGroups (filter isPlaceholder (d_assignments ex_relabelled))
     = [(''p1-JAN 1'', [ex_asg ''1'' ''Placeholder 1'' 20 ''JAN 1'' ''2024-01-01'']),
        (''p1-2024-W01'', [ex_asg ''2'' ''Placeholder 2'' 20 ''2024-W01'' ''2024-01-01''])]"
  by (simp add: optimizer_defs container_defs example_defs Let_def)

lemma ex_relabelled_first:
  "map suggestedEmployeeId
     (suggestionsOfGroup ex_relabelled ex_weights
        (createSkillScoreMatrix (d_employees ex_relabelled) (d_projects ex_relabelled)) genetic
        (jsMap_of_entries (map (\<lambda>p. (proj_id p, p)) (d_projects ex_relabelled)))
        [ex_asg ''1'' ''Placeholder 1'' 20 ''JAN 1'' ''2024-01-01''])
     = [''john'']"
  by (simp add: optimizer_defs batch_defs container_defs example_defs Let_def)

lemma ex_relabelled_second:
  "map suggestedEmployeeId
     (suggestionsOfGroup ex_relabelled ex_weights
        (createSkillScoreMatrix (d_employees ex_relabelled) (d_projects ex_relabelled)) genetic
        (jsMap_of_entries (map (\<lambda>p. (proj_id p, p)) (d_projects ex_relabelled)))
        [ex_asg ''2'' ''Placeholder 2'' 20 ''2024-W01'' ''2024-01-01''])
     = [''john'']"
  by (simp add: optimizer_defs batch_defs container_defs example_defs Let_def)

lemma ex_relabelled_suggestions:
  "map suggestedEmployeeId
     (res_suggestions (optimizeSchedule ex_weeks ex_relabelled genetic ex_weights None))
     = [''john'', ''john'']"
  by (simp add: optimizeSchedule_suggestions ex_relabelled_groups jsMap_values_def
        ex_relabelled_first ex_relabelled_second)

lemma ex_two_slots_run:
  "map suggestedEmployeeId
     (res_suggestions (optimizeSchedule ex_weeks ex_two_slots genetic ex_weights None))
     = [''john'', ''jane'']"
  by (simp add: optimizeSchedule_suggestions ex_two_slots_groups jsMap_values_def
        ex_two_slots_suggestions)

lemma ex_relabelled_work_keys:
  "map date_or_week ex_relabelled_work = [''2024-01-01'', ''2024-01-01''] \<and>
   map week_or_date ex_relabelled_work = [''JAN 1'', ''2024-W01'']"
  by (simp add: date_or_week_def week_or_date_def truthy_def example_defs)

lemma ex_relabelled_work_batch:
  "calculateTotalOvertime [ex_john] ex_relabelled_work = 20 \<and>
   overtimeHours (calculateMetrics ex_weeks [ex_john] [ex_project] ex_relabelled_work None) = 20"
  by (simp add: optimizer_defs batch_defs container_defs example_defs Let_def)

lemma ex_relabelled_work_cache:
  "overtimeHours (fst (getMetrics 1 (initialize 0 [ex_john] [ex_project] ex_relabelled_work))) = 0"
  by (simp add: incremental_defs container_defs example_defs)

text \<open>
  Claim C2, evaluated on the code. Two open slots of the project \<open>p1\<close> carry the same date
  under the week labels \<open>JAN 1\<close> and \<open>2024-W01\<close>. The batch functions key both by the date.
  The optimizer keys its groups by the week label: the slots fall into two groups, and
  John is suggested for both, while the same slots under one label form one group and get
  John and Jane. The cache keys the hours by the week label too: for twice 30 hours on one
  date under the two labels it counts no overtime, where the batch functions count 20.
\<close>

theorem week_label_precedes_date_in_grouping:
  "map date_or_week (d_assignments ex_relabelled) = [''2024-01-01'', ''2024-01-01''] \<and>
   map fst (placeholderGroups (filter isPlaceholder (d_assignments ex_relabelled)))
     = [''p1-JAN 1'', ''p1-2024-W01''] \<and>
   map suggestedEmployeeId
     (res_suggestions (optimizeSchedule ex_weeks ex_relabelled genetic ex_weights None))
     = [''john'', ''john''] \<and>
   map suggestedEmployeeId
     (res_suggestions (optimizeSchedule ex_weeks ex_two_slots genetic ex_weights None))
     = [''john'', ''jane''] \<and>
   map date_or_week ex_relabelled_work = [''2024-01-01'', ''2024-01-01''] \<and>
   map week_or_date ex_relabelled_work = [''JAN 1'', ''2024-W01''] \<and>
   calculateTotalOvertime [ex_john] ex_relabelled_work = 20 \<and>
   overtimeHours (calculateMetrics ex_weeks [ex_john] [ex_project] ex_relabelled_work None) = 20 \<and>
   overtimeHours (fst (getMetrics 1 (initialize 0 [ex_john] [ex_project] ex_relabelled_work))) = 0"
proof -
  have "map date_or_week (d_assignments ex_relabelled) = [''2024-01-01'', ''2024-01-01'']"
    by (simp add: date_or_week_def truthy_def example_defs)
  moreover have "map fst (placeholderGroups (filter isPlaceholder (d_assignments ex_relabelled)))
     = [''p1-JAN 1'', ''p1-2024-W01'']"
    by (simp add: ex_relabelled_groups)
  ultimately show ?thesis
    using ex_relabelled_suggestions ex_two_slots_run ex_relabelled_work_keys
      ex_relabelled_work_batch ex_relabelled_work_cache
    by blast
qed

text \<open>
  Claim C3, evaluated on the code. The only assignment is an open slot of the project
  \<open>p1\<close> with a date and an empty week label. Its group is keyed by the date and is
  resolved: John is suggested. The suggestion records the empty week label, so the key of
  the replaced placeholders is \<open>p1-\<close>, which is not the key \<open>p1-2024-01-01\<close> of the slot: the
  predicted list keeps the resolved placeholder beside the new assignment of John.
\<close>

theorem resolved_date_only_placeholder_is_kept:
  "map fst (placeholderGroups (filter isPlaceholder (d_assignments ex_date_only)))
     = [''p1-2024-01-01''] \<and>
   map suggestedEmployeeId
     (res_suggestions (optimizeSchedule ex_weeks ex_date_only genetic ex_weights None))
     = [''john''] \<and>
   applysuggestions (d_assignments ex_date_only)
     (res_suggestions (optimizeSchedule ex_weeks ex_date_only genetic ex_weights None))
     = [ex_asg ''1'' ''Placeholder'' 20 [] ''2024-01-01'',
        \<lparr>asg_id = ''john-p1-'', employeeId = ''john'', projectId = ''p1'', hours = 20,
         week = [], date = Some []\<rparr>] \<and>
   predictedUtilization
     (res_metrics (optimizeSchedule ex_weeks ex_date_only genetic ex_weights None)) = 25"
  by (simp add: optimizer_defs batch_defs container_defs example_defs Let_def)


section \<open>Dangling references\<close>

lemma spec_overtime_insert:
  assumes "employeeId a \<notin> emp_id ` set employees"
  shows "spec_overtime employees (xs @ a # ys) = spec_overtime employees (xs @ ys)"
proof -
  have "spec_overtimeOf e (xs @ a # ys) = spec_overtimeOf e (xs @ ys)" if "e \<in> set employees" for e
  proof -
    from that assms have ne: "employeeId a \<noteq> emp_id e" by auto
    have f1: "filter (\<lambda>b. employeeId b = emp_id e) (xs @ a # ys)
                = filter (\<lambda>b. employeeId b = emp_id e) (xs @ ys)"
      using ne by simp
    have f2: "filter (\<lambda>b. employeeId b = emp_id e \<and> date_or_week b = k) (xs @ a # ys)
                = filter (\<lambda>b. employeeId b = emp_id e \<and> date_or_week b = k) (xs @ ys)" for k
      using ne by simp
    show ?thesis
      by (simp only: spec_overtimeOf_def spec_periodsOf_def spec_periodHours_def f1 f2)
  qed
  then have "map (\<lambda>e. spec_overtimeOf e (xs @ a # ys)) employees
               = map (\<lambda>e. spec_overtimeOf e (xs @ ys)) employees"
    by (intro map_cong[OF refl]) simp
  then show ?thesis
    unfolding spec_overtime_def by (rule arg_cong[where f = sum_list])
qed

lemma calculateTotalOvertime_insert:
  assumes "employeeId a \<notin> emp_id ` set employees"
  shows "calculateTotalOvertime employees (xs @ a # ys) = calculateTotalOvertime employees (xs @ ys)"
proof (cases "isPlaceholder a")
  case True
  then show ?thesis by (simp add: calculateTotalOvertime_spec)
next
  case False
  then show ?thesis
    using spec_overtime_insert[OF assms, of "filter (\<lambda>a. \<not> isPlaceholder a) xs"
        "filter (\<lambda>a. \<not> isPlaceholder a) ys"]
    by (simp add: calculateTotalOvertime_spec)
qed

lemma calculateSkillsMatch_step_skip:
  assumes "jsMap_get employeeMap (employeeId a) = None \<or> jsMap_get projectMap (projectId a) = None"
  shows "calculateSkillsMatch_step employeeMap projectMap a st = st"
  using assms
  by (cases st) (auto simp: calculateSkillsMatch_step_def Let_def split: option.splits)

lemma calculateSkillsMatch_insert:
  assumes "jsMap_get employeeMap (employeeId a) = None \<or> jsMap_get projectMap (projectId a) = None"
  shows "calculateSkillsMatch (xs @ a # ys) employeeMap projectMap
           = calculateSkillsMatch (xs @ ys) employeeMap projectMap"
  by (simp add: calculateSkillsMatch_def calculateSkillsMatch_step_skip[OF assms])

lemma calculateMetrics_skills_insert:
  assumes "employeeId a \<notin> emp_id ` set employees \<or> projectId a \<notin> proj_id ` set projects"
  shows "skillsMatching (calculateMetrics dw employees projects (xs @ a # ys) dateRange)
           = skillsMatching (calculateMetrics dw employees projects (xs @ ys) dateRange)"
proof -
  have "jsMap_get (jsMap_of_entries (map (\<lambda>e. (emp_id e, e)) employees)) (employeeId a) = None \<or>
        jsMap_get (jsMap_of_entries (map (\<lambda>p. (proj_id p, p)) projects)) (projectId a) = None"
    using assms by (simp add: jsMap_of_entries_get_None)
  from calculateSkillsMatch_insert[OF this, of xs ys] show ?thesis
    by (simp add: calculateMetrics_def Let_def)
qed

text \<open>
  Claim C4, as the code has it. No lookup raises: every lookup of the model returns an
  option, and the missing case is a branch of the function. An assignment whose employee
  id is not in the employee list adds no hours to the total assigned hours of the
  utilization and nothing to the batch overtime, and an assignment whose employee id or
  project id is not listed adds no skill points to the batch skills match; in the cache, an
  employee id that is not in the employee map gets no overtime and no utilization entry.
  The period key of such an assignment still counts among the distinct periods of the
  utilization. The skills match that the cache stores for a project id that is not in the
  project map is not part of this statement.
\<close>

theorem dangling_references_add_nothing:
  "(employeeId a \<notin> emp_id ` set employees \<longrightarrow>
      snd (capacityAndHours n (employeeAssignedHours (xs @ a # ys)) employees)
        = snd (capacityAndHours n (employeeAssignedHours (xs @ ys)) employees) \<and>
      calculateTotalOvertime employees (xs @ a # ys) = calculateTotalOvertime employees (xs @ ys) \<and>
      overtimeHours (calculateMetrics dw employees projects (xs @ a # ys) dateRange)
        = overtimeHours (calculateMetrics dw employees projects (xs @ ys) dateRange)) \<and>
   (employeeId a \<notin> emp_id ` set employees \<or> projectId a \<notin> proj_id ` set projects \<longrightarrow>
      skillsMatching (calculateMetrics dw employees projects (xs @ a # ys) dateRange)
        = skillsMatching (calculateMetrics dw employees projects (xs @ ys) dateRange)) \<and>
   (jsMap_get (c_employees this) eid = None \<longrightarrow>
      calculateEmployeeOvertime eid this = this \<and> calculateEmployeeUtilization eid this = this)"
proof -
  have "snd (capacityAndHours n (employeeAssignedHours (xs @ a # ys)) employees)
        = snd (capacityAndHours n (employeeAssignedHours (xs @ ys)) employees)"
    if "employeeId a \<notin> emp_id ` set employees"
    using spec_totalAssignedHours_insert[OF that, of xs ys] by (simp add: capacityAndHours_eq)
  moreover have "overtimeHours (calculateMetrics dw employees projects (xs @ a # ys) dateRange)
        = overtimeHours (calculateMetrics dw employees projects (xs @ ys) dateRange)"
    if "employeeId a \<notin> emp_id ` set employees"
    using spec_overtime_insert[OF that, of xs ys] by (simp add: calculateMetrics_overtime)
  moreover have "calculateEmployeeOvertime eid this = this \<and> calculateEmployeeUtilization eid this = this"
    if "jsMap_get (c_employees this) eid = None"
    using that by (simp add: calculateEmployeeOvertime_def calculateEmployeeUtilization_def)
  ultimately show ?thesis
    using calculateTotalOvertime_insert[of a employees xs ys]
      calculateMetrics_skills_insert[of a employees projects dw xs ys dateRange]
    by blast
qed

lemma ex_two_weeks_metrics:
  "calculateMetrics ex_weeks [ex_john] [ex_project] ex_two_weeks None
     = \<lparr>overtimeHours = 10, resourceUtilization = 75, skillsMatching = 2\<rparr>"
  by (simp add: batch_defs container_defs example_defs Let_def)

lemma ex_two_weeks_total_overtime: "calculateTotalOvertime [ex_john] ex_two_weeks = 10"
  by (simp add: optimizer_defs batch_defs container_defs example_defs Let_def)

lemma ex_no_employees: "c_employees (initialize 0 [] [ex_project] []) = []"
  by (simp add: incremental_defs container_defs example_defs)

text \<open>John's two weeks, 10 hours of overtime and 2 skill points, and after them the
  assignment of an unknown employee: overtime and skill points stay. In a cache without
  employees the calculations for \<open>nobody\<close> change nothing.\<close>

theorem dangling_references_add_nothing_witness:
  "calculateTotalOvertime [ex_john] (ex_two_weeks @ [ex_stray]) = 10 \<and>
   overtimeHours (calculateMetrics ex_weeks [ex_john] [ex_project] (ex_two_weeks @ [ex_stray]) None) = 10 \<and>
   skillsMatching (calculateMetrics ex_weeks [ex_john] [ex_project] (ex_two_weeks @ [ex_stray]) None) = 2 \<and>
   calculateEmployeeOvertime ''nobody'' (initialize 0 [] [ex_project] [])
     = initialize 0 [] [ex_project] [] \<and>
   calculateEmployeeUtilization ''nobody'' (initialize 0 [] [ex_project] [])
     = initialize 0 [] [ex_project] []"
proof -
  have stray: "employeeId ex_stray \<notin> emp_id ` set [ex_john]"
    by (simp add: example_defs)
  have none: "jsMap_get (c_employees (initialize 0 [] [ex_project] [])) ''nobody'' = None"
    by (simp add: ex_no_employees jsMap_get_def)
  from dangling_references_add_nothing[of ex_stray "[ex_john]" _ ex_two_weeks "[]" ex_weeks
      "[ex_project]" None "initialize 0 [] [ex_project] []" "''nobody''"] stray none
  show ?thesis
    by (simp add: ex_two_weeks_metrics ex_two_weeks_total_overtime)
qed

text \<open>The claim C4 as it is written fails in two places. In the batch utilization the
  period key of the assignment of the unknown employee counts as a third period, and the
  utilization falls from 75 to 50. In the cache, with the project \<open>p1\<close> and no employee, an
  added assignment to the unknown project \<open>ghost\<close> makes \<open>getMetrics\<close> store a skills match of
  100 under \<open>ghost\<close>, and the skills metric rises from 0 to 50, where the batch calculator
  reports 0.\<close>

theorem dangling_reference_changes_metrics:
  "calculateResourceUtilization ex_weeks [ex_john] ex_two_weeks None = 75 \<and>
   calculateResourceUtilization ex_weeks [ex_john] (ex_two_weeks @ [ex_stray]) None = 50 \<and>
   skillsMatching (fst (getMetrics 1 (initialize 0 [] [ex_project] []))) = 0 \<and>
   fst (getMetrics 1 (addAssignment ex_ghost (initialize 0 [] [ex_project] [])))
     = \<lparr>overtimeHours = 0, resourceUtilization = 0, skillsMatching = 50\<rparr> \<and>
   skillsMatchByProject
     (cache (snd (getMetrics 1 (addAssignment ex_ghost (initialize 0 [] [ex_project] [])))))
     = [(''p1'', 0), (''ghost'', 100)] \<and>
   calculateMetrics ex_weeks [] [ex_project] [ex_ghost] None
     = \<lparr>overtimeHours = 0, resourceUtilization = 0, skillsMatching = 0\<rparr>"
  by (simp add: container_defs incremental_defs batch_defs example_defs)

end
